theory Spec2Isabelle
  imports Complex_Main "HOL-Library.AList"
begin

section \<open>Conventions of the embedding\<close>

text \<open>
  The development embeds two modules of the EthiQuest backend:
  \<^verbatim>\<open>app/core/game/game_logic.py\<close> (class GameLogic) and
  \<^verbatim>\<open>app/core/analytics/pattern_analyzer.py\<close> (class PatternAnalyzer), together with the
  decision validation of \<^verbatim>\<open>app/api/endpoints/scenarios.py\<close>.

  \<^item> Python numbers are modelled by \<^typ>\<open>real\<close> (exact arithmetic, no rounding) and
    \<^typ>\<open>int\<close>. Inputs are finite numbers. Where a float result is compared with a
    threshold or truncated (the bands of the sustainability rating, the experience required
    for a level), the rounding of the float arithmetic can put the code on the other side
    of a boundary that the exact value meets; the general theorems below do not depend
    on these two values.
  \<^item> A Python dict is an association list in insertion order: \<^const>\<open>map_of\<close> reads a key,
    \<^const>\<open>AList.update\<close> writes one (an existing key keeps its place, a new key goes last,
    as in Python).
  \<^item> A raised exception is a value \<open>Inl e\<close> of the result type \<open>py_error + 'a\<close>.
  \<^item> Python names that start with an underscore lose it: \<^verbatim>\<open>_apply_impacts\<close> is
    \<open>apply_impacts\<close>.
  \<^item> \<^verbatim>\<open>datetime.utcnow()\<close> is a parameter \<open>now\<close>, the clock reading in seconds.
\<close>

datatype py_error =
    KeyError string
  | ZeroDivisionError
  | AttributeError string
  | LinAlgError

section \<open>Game logic: data model\<close>

text \<open>An event is the dict built by \<^verbatim>\<open>_check_triggered_events\<close>: keys type, stakeholder
  (absent for the financial and the reputation crisis), severity and description.\<close>

record event =
  ev_type :: string
  ev_stakeholder :: "string option"
  ev_severity :: string
  ev_description :: string

text \<open>A stakeholder memory is the dict built by \<^verbatim>\<open>_update_stakeholder_memories\<close>.\<close>

record memory =
  decision_type :: string
  impact :: real
  timestamp :: int

text \<open>The GameState object. The class itself lies outside the modules embedded here; the
  fields are the ones \<^verbatim>\<open>initialize_game_state\<close> sets, and \<open>metadata\<close> is the
  \<^verbatim>\<open>'stakeholder_memories'\<close> entry of the metadata dict that
  \<^verbatim>\<open>_update_stakeholder_memories\<close> reads and writes (\<open>None\<close>: the key is absent).
  The three containers that the game logic writes into (the satisfaction dict, the list of
  ongoing events, the metadata dict) are type parameters: in \<open>game_state\<close> they are the
  containers themselves, the state by value; the section on object identity instantiates
  them with addresses.\<close>

record ('s, 'e, 'm) state_of =
  player_id :: string
  company_size :: string
  financial_resources :: real
  human_resources :: int
  reputation :: real
  stakeholder_satisfaction :: 's
  market_share :: real
  sustainability_rating :: string
  active_challenges :: "event list"
  ongoing_events :: 'e
  current_level :: int
  experience_points :: int
  last_update :: int
  metadata :: 'm

type_synonym game_state =
  "((string \<times> real) list, event list, (string \<times> memory list) list option) state_of"

text \<open>The decision and the scenario as the game logic and the endpoint read them.\<close>

record game_decision =
  approach_id :: string
  parameters :: "(string \<times> string) list"
  dtype :: string
  impacts :: "(string \<times> real) list"

record approach =
  approach_ident :: string

record scenario =
  difficulty_level :: real
  possible_approaches :: "approach list"
  time_constraint :: "real option"
  created_at :: real
  required_parameters :: "string list"

section \<open>Game logic: constants of Settings and GameLogic\<close>

definition STAKEHOLDER_TYPES :: "string list" where
  "STAKEHOLDER_TYPES = [''employees'', ''customers'', ''investors'', ''community'', ''environment'']"

definition STARTING_CAPITAL :: real where
  "STARTING_CAPITAL = 1000000"

definition REPUTATION_MULTIPLIER :: real where
  "REPUTATION_MULTIPLIER = 3 / 2"

definition LEVEL_XP_REQUIREMENT :: real where
  "LEVEL_XP_REQUIREMENT = 1000"

definition STAKEHOLDER_MEMORY_DURATION :: int where
  "STAKEHOLDER_MEMORY_DURATION = 5"

text \<open>\<^verbatim>\<open>d.get(k, 0)\<close> and \<^verbatim>\<open>d[k]\<close>.\<close>

definition get0 :: "(string \<times> real) list \<Rightarrow> string \<Rightarrow> real" where
  "get0 d k = (case map_of d k of None \<Rightarrow> 0 | Some v \<Rightarrow> v)"

definition getitem :: "(string \<times> 'a) list \<Rightarrow> string \<Rightarrow> py_error + 'a" where
  "getitem d k = (case map_of d k of None \<Rightarrow> Inl (KeyError k) | Some v \<Rightarrow> Inr v)"

text \<open>\<^verbatim>\<open>max(0, min(100, x))\<close>.\<close>

definition clamp100 :: "real \<Rightarrow> real" where
  "clamp100 x = max 0 (min 100 x)"

text \<open>All values of a satisfaction dict lie in [0, 100].\<close>

definition in_range :: "(string \<times> real) list \<Rightarrow> bool" where
  "in_range sat = (\<forall>(k, v) \<in> set sat. 0 \<le> v \<and> v \<le> 100)"

text \<open>\<^verbatim>\<open>int(x)\<close> on a float truncates towards zero.\<close>

definition py_int :: "real \<Rightarrow> int" where
  "py_int x = (if 0 \<le> x then \<lfloor>x\<rfloor> else \<lceil>x\<rceil>)"

section \<open>Game logic: impact calculator\<close>

definition size_modifiers :: "(string \<times> real) list" where
  "size_modifiers = [(''small'', 12 / 10), (''medium'', 1), (''large'', 8 / 10)]"

definition calculate_impact_modifier :: "string \<Rightarrow> game_state \<Rightarrow> py_error + real" where
  "calculate_impact_modifier stakeholder gs =
     (case getitem (stakeholder_satisfaction gs) stakeholder of
        Inl e \<Rightarrow> Inl e
      | Inr satisfaction \<Rightarrow>
          (let base_modifier =
                 (if satisfaction < 30 then 1 * (12 / 10)
                  else if satisfaction > 70 then 1 * (8 / 10)
                  else 1)
           in case getitem size_modifiers (company_size gs) of
                Inl e \<Rightarrow> Inl e
              | Inr m \<Rightarrow> Inr (base_modifier * m)))"

definition size_multipliers :: "(string \<times> real) list" where
  "size_multipliers = [(''small'', 1 / 2), (''medium'', 1), (''large'', 2)]"

definition calculate_financial_impact :: "game_decision \<Rightarrow> game_state \<Rightarrow> py_error + real" where
  "calculate_financial_impact decision gs =
     (let base_impact = get0 (impacts decision) ''financial''
      in case getitem size_multipliers (company_size gs) of
           Inl e \<Rightarrow> Inl e
         | Inr m \<Rightarrow>
             (let scaled_impact = base_impact * m;
                  market_multiplier = 1 + market_share gs / 100
              in Inr (scaled_impact * market_multiplier)))"

definition reputation_weights :: "(string \<times> real) list" where
  "reputation_weights =
     [(''employees'', 3 / 10), (''customers'', 3 / 10), (''community'', 2 / 10),
      (''environment'', 1 / 10), (''investors'', 1 / 10)]"

definition calculate_reputation_impact ::
  "game_decision \<Rightarrow> (string \<times> real) list \<Rightarrow> real" where
  "calculate_reputation_impact decision imp =
     (\<Sum>(stakeholder, weight) \<leftarrow> reputation_weights. get0 imp stakeholder * weight)
       * REPUTATION_MULTIPLIER"

text \<open>The loop of \<^verbatim>\<open>_calculate_decision_impacts\<close> over \<^verbatim>\<open>decision.impacts.items()\<close>;
  \<open>acc\<close> is the dict \<^verbatim>\<open>impacts\<close> under construction. Every key of the decision's impacts
  goes through \<^verbatim>\<open>_calculate_impact_modifier\<close>, which indexes the satisfaction dict.\<close>

fun base_impacts ::
  "real \<Rightarrow> game_state \<Rightarrow> (string \<times> real) list \<Rightarrow> (string \<times> real) list
     \<Rightarrow> py_error + (string \<times> real) list" where
  "base_impacts difficulty gs [] acc = Inr acc"
| "base_impacts difficulty gs ((stakeholder, i) # rest) acc =
     (let base_impact = i * difficulty
      in case calculate_impact_modifier stakeholder gs of
           Inl e \<Rightarrow> Inl e
         | Inr modifier \<Rightarrow>
             base_impacts difficulty gs rest (AList.update stakeholder (base_impact * modifier) acc))"

definition calculate_decision_impacts ::
  "game_decision \<Rightarrow> scenario \<Rightarrow> game_state \<Rightarrow> py_error + (string \<times> real) list" where
  "calculate_decision_impacts decision sc gs =
     (case base_impacts (difficulty_level sc) gs (impacts decision) [] of
        Inl e \<Rightarrow> Inl e
      | Inr imp \<Rightarrow>
          (case calculate_financial_impact decision gs of
             Inl e \<Rightarrow> Inl e
           | Inr fin \<Rightarrow>
               (let imp1 = AList.update ''financial'' fin imp;
                    imp2 = AList.update ''reputation'' (calculate_reputation_impact decision imp1) imp1
                in Inr imp2)))"

section \<open>Game logic: state mutator\<close>

text \<open>\<^verbatim>\<open>_calculate_new_market_share\<close>: the quotient is a Python division, which raises
  ZeroDivisionError on a zero divisor.\<close>

definition calculate_new_market_share ::
  "game_state \<Rightarrow> (string \<times> real) list \<Rightarrow> py_error + real" where
  "calculate_new_market_share gs imp =
     (let current_share = market_share gs;
          reputation_change = get0 imp ''reputation'' * (1 / 10)
      in if financial_resources gs = 0 then Inl ZeroDivisionError
         else
           (let financial_change = get0 imp ''financial'' / financial_resources gs;
                share_change = (reputation_change + financial_change) * (1 / 2)
            in Inr (clamp100 (current_share + share_change))))"

definition calculate_sustainability_rating :: "game_state \<Rightarrow> py_error + string" where
  "calculate_sustainability_rating gs =
     (case getitem (stakeholder_satisfaction gs) ''environment'' of
        Inl e \<Rightarrow> Inl e
      | Inr environmental_score \<Rightarrow>
          (case getitem (stakeholder_satisfaction gs) ''community'' of
             Inl e \<Rightarrow> Inl e
           | Inr community_score \<Rightarrow>
               (let overall_score = environmental_score * (6 / 10) + community_score * (4 / 10)
                in Inr (if overall_score \<ge> 90 then ''A+''
                        else if overall_score \<ge> 80 then ''A''
                        else if overall_score \<ge> 70 then ''B+''
                        else if overall_score \<ge> 60 then ''B''
                        else if overall_score \<ge> 50 then ''C+''
                        else if overall_score \<ge> 40 then ''C''
                        else ''D''))))"

text \<open>The loop of \<^verbatim>\<open>_apply_impacts\<close> over the canonical stakeholders, on the satisfaction
  dict \<open>sat\<close>.\<close>

fun update_satisfaction ::
  "(string \<times> real) list \<Rightarrow> string list \<Rightarrow> (string \<times> real) list
     \<Rightarrow> py_error + (string \<times> real) list" where
  "update_satisfaction imp [] sat = Inr sat"
| "update_satisfaction imp (stakeholder # rest) sat =
     (case map_of imp stakeholder of
        None \<Rightarrow> update_satisfaction imp rest sat
      | Some change \<Rightarrow>
          (case getitem sat stakeholder of
             Inl e \<Rightarrow> Inl e
           | Inr current \<Rightarrow>
               update_satisfaction imp rest
                 (AList.update stakeholder (clamp100 (current + change)) sat)))"

definition apply_impacts :: "game_state \<Rightarrow> (string \<times> real) list \<Rightarrow> py_error + game_state" where
  "apply_impacts gs imp =
     (let s1 = gs\<lparr>financial_resources := financial_resources gs + get0 imp ''financial''\<rparr>;
          s2 = s1\<lparr>reputation := reputation s1 + get0 imp ''reputation''\<rparr>
      in case update_satisfaction imp STAKEHOLDER_TYPES (stakeholder_satisfaction s2) of
           Inl e \<Rightarrow> Inl e
         | Inr sat \<Rightarrow>
             (let s3 = s2\<lparr>stakeholder_satisfaction := sat\<rparr>
              in case calculate_new_market_share s3 imp of
                   Inl e \<Rightarrow> Inl e
                 | Inr share \<Rightarrow>
                     (let s4 = s3\<lparr>market_share := share\<rparr>
                      in case calculate_sustainability_rating s4 of
                           Inl e \<Rightarrow> Inl e
                         | Inr rating \<Rightarrow> Inr (s4\<lparr>sustainability_rating := rating\<rparr>))))"

section \<open>Game logic: events and progression\<close>

definition stakeholder_crisis :: "string \<Rightarrow> event" where
  "stakeholder_crisis stakeholder =
     \<lparr>ev_type = ''stakeholder_crisis'', ev_stakeholder = Some stakeholder,
      ev_severity = ''high'',
      ev_description = ''Critical '' @ stakeholder @ '' satisfaction level''\<rparr>"

definition financial_crisis :: event where
  "financial_crisis =
     \<lparr>ev_type = ''financial_crisis'', ev_stakeholder = None, ev_severity = ''high'',
      ev_description = ''Critical financial situation''\<rparr>"

definition reputation_crisis :: event where
  "reputation_crisis =
     \<lparr>ev_type = ''reputation_crisis'', ev_stakeholder = None, ev_severity = ''high'',
      ev_description = ''Critical reputation level''\<rparr>"

definition check_triggered_events :: "game_state \<Rightarrow> (string \<times> real) list \<Rightarrow> event list" where
  "check_triggered_events gs imp =
     map (\<lambda>(stakeholder, satisfaction). stakeholder_crisis stakeholder)
         (filter (\<lambda>(stakeholder, satisfaction). satisfaction < 30) (stakeholder_satisfaction gs))
     @ (if financial_resources gs < STARTING_CAPITAL * (2 / 10) then [financial_crisis] else [])
     @ (if reputation gs < 30 then [reputation_crisis] else [])"

text \<open>The loop of \<^verbatim>\<open>_handle_events\<close> on the list \<^verbatim>\<open>ongoing_events\<close>.\<close>

fun append_events :: "event list \<Rightarrow> event list \<Rightarrow> event list" where
  "append_events [] ongoing = ongoing"
| "append_events (e # es) ongoing =
     append_events es (if e \<notin> set ongoing then ongoing @ [e] else ongoing)"

definition handle_events :: "game_state \<Rightarrow> event list \<Rightarrow> game_state" where
  "handle_events gs events = gs\<lparr>ongoing_events := append_events events (ongoing_events gs)\<rparr>"

definition calculate_experience_points ::
  "game_decision \<Rightarrow> (string \<times> real) list \<Rightarrow> real \<Rightarrow> int" where
  "calculate_experience_points decision imp difficulty =
     (let base_xp = 100;
          difficulty_bonus = base_xp * difficulty;
          stakeholder_count = length (filter (\<lambda>(k, v). \<bar>v\<bar> > 0) imp);
          balance_bonus = base_xp * (real stakeholder_count / real (length STAKEHOLDER_TYPES));
          impact_bonus = (\<Sum>(k, v) \<leftarrow> filter (\<lambda>(k, v). v > 0) imp. v) * (1 / 2);
          total_xp = base_xp + difficulty_bonus + balance_bonus + impact_bonus
      in py_int total_xp)"

text \<open>\<^verbatim>\<open>1.5 ** (level - 1)\<close> for an integer level.\<close>

definition pow15 :: "int \<Rightarrow> real" where
  "pow15 e = (if 0 \<le> e then (3 / 2) ^ nat e else 1 / (3 / 2) ^ nat (- e))"

definition calculate_xp_needed :: "int \<Rightarrow> int" where
  "calculate_xp_needed level = py_int (LEVEL_XP_REQUIREMENT * pow15 (level - 1))"

definition check_level_up :: "('s, 'e, 'm) state_of \<Rightarrow> ('s, 'e, 'm) state_of" where
  "check_level_up gs =
     (let xp_needed = calculate_xp_needed (current_level gs)
      in if experience_points gs \<ge> xp_needed
         then gs\<lparr>current_level := current_level gs + 1\<rparr>
         else gs)"

text \<open>One round of the loop of \<^verbatim>\<open>_update_stakeholder_memories\<close> on the
  \<^verbatim>\<open>'stakeholder_memories'\<close> entry \<open>md\<close>; \<^verbatim>\<open>timedelta.days\<close> is the floor of the
  seconds over 86400.\<close>

definition remember ::
  "int \<Rightarrow> string \<Rightarrow> string \<Rightarrow> real \<Rightarrow> (string \<times> memory list) list option
     \<Rightarrow> (string \<times> memory list) list option" where
  "remember now dt stakeholder v md =
     (let m = \<lparr>decision_type = dt, impact = v, timestamp = now\<rparr>;
          d0 = (case md of None \<Rightarrow> [] | Some d \<Rightarrow> d);
          d1 = (case map_of d0 stakeholder of None \<Rightarrow> AList.update stakeholder [] d0 | Some ms \<Rightarrow> d0);
          memories = (case map_of d1 stakeholder of None \<Rightarrow> [] | Some ms \<Rightarrow> ms) @ [m];
          recent_memories =
            filter (\<lambda>m. (now - timestamp m) div 86400 < STAKEHOLDER_MEMORY_DURATION) memories
      in Some (AList.update stakeholder recent_memories d1))"

fun update_memories ::
  "int \<Rightarrow> string \<Rightarrow> (string \<times> real) list \<Rightarrow> string list \<Rightarrow> (string \<times> memory list) list option
     \<Rightarrow> (string \<times> memory list) list option" where
  "update_memories now dt imp [] md = md"
| "update_memories now dt imp (stakeholder # rest) md =
     (case map_of imp stakeholder of
        None \<Rightarrow> update_memories now dt imp rest md
      | Some v \<Rightarrow> update_memories now dt imp rest (remember now dt stakeholder v md))"

definition update_stakeholder_memories ::
  "int \<Rightarrow> game_state \<Rightarrow> game_decision \<Rightarrow> (string \<times> real) list \<Rightarrow> game_state" where
  "update_stakeholder_memories now gs decision imp =
     gs\<lparr>metadata := update_memories now (dtype decision) imp STAKEHOLDER_TYPES (metadata gs)\<rparr>"

section \<open>Game logic: process_decision\<close>

definition process_decision ::
  "int \<Rightarrow> game_state \<Rightarrow> scenario \<Rightarrow> game_decision
     \<Rightarrow> py_error + (game_state \<times> (string \<times> real) list)" where
  "process_decision now gs sc decision =
     (case calculate_decision_impacts decision sc gs of
        Inl e \<Rightarrow> Inl e
      | Inr immediate_impacts \<Rightarrow>
          (case apply_impacts gs immediate_impacts of
             Inl e \<Rightarrow> Inl e
           | Inr updated_state \<Rightarrow>
               (let events = check_triggered_events updated_state immediate_impacts;
                    s1 = (if events \<noteq> [] then handle_events updated_state events else updated_state);
                    xp_gained = calculate_experience_points decision immediate_impacts
                                  (difficulty_level sc);
                    s2 = s1\<lparr>experience_points := experience_points s1 + xp_gained\<rparr>;
                    s3 = check_level_up s2;
                    s4 = update_stakeholder_memories now s3 decision immediate_impacts
                in Inr (s4, immediate_impacts))))"

text \<open>\<^verbatim>\<open>initialize_game_state\<close>, with the constants of Settings; the metadata dict of a new
  state has no \<^verbatim>\<open>'stakeholder_memories'\<close> entry.\<close>

definition initialize_game_state :: "string \<Rightarrow> int \<Rightarrow> game_state" where
  "initialize_game_state pid now =
     \<lparr>player_id = pid, company_size = ''small'', financial_resources = STARTING_CAPITAL,
      human_resources = 10, reputation = 50,
      stakeholder_satisfaction = map (\<lambda>stakeholder. (stakeholder, 50)) STAKEHOLDER_TYPES,
      market_share = 5, sustainability_rating = ''C'', active_challenges = [],
      ongoing_events = [], current_level = 1, experience_points = 0, last_update = now,
      metadata = None\<rparr>"

section \<open>Endpoint: validation of a submitted decision\<close>

text \<open>\<^verbatim>\<open>_validate_decision\<close> of \<^verbatim>\<open>app/api/endpoints/scenarios.py\<close>. The fields are typed, so
  the \<^verbatim>\<open>except Exception: return False\<close> branch has no further case in the model.\<close>

definition validate_decision :: "int \<Rightarrow> game_decision \<Rightarrow> scenario \<Rightarrow> bool" where
  "validate_decision now decision sc =
     (let valid_approaches = map approach_ident (possible_approaches sc)
      in if approach_id decision \<notin> set valid_approaches then False
         else if (case time_constraint sc of
                    None \<Rightarrow> False
                  | Some tc \<Rightarrow> tc \<noteq> 0 \<and> real_of_int now - created_at sc > tc) then False
         else if \<not> (\<forall>param \<in> set (map fst (parameters decision)).
                       param \<in> set (required_parameters sc)) then False
         else True)"

datatype detail = Text string | Str py_error

datatype http_exception = HTTPException int detail

text \<open>\<^verbatim>\<open>submit_decision\<close> up to the call of \<^verbatim>\<open>process_decision\<close>. The two database reads
  are the arguments \<open>scenario_opt\<close> and \<open>state_opt\<close>; the writes that follow a successful
  \<^verbatim>\<open>process_decision\<close> (store the decision, update the state, drop the caches) happen only on the
  \<open>Inr\<close> result.\<close>

definition submit_decision ::
  "int \<Rightarrow> scenario option \<Rightarrow> game_state option \<Rightarrow> game_decision
     \<Rightarrow> http_exception + (game_state \<times> (string \<times> real) list)" where
  "submit_decision now scenario_opt state_opt decision =
     (case scenario_opt of
        None \<Rightarrow> Inl (HTTPException 404 (Text ''Scenario not found''))
      | Some sc \<Rightarrow>
          (case state_opt of
             None \<Rightarrow> Inl (HTTPException 404 (Text ''Game state not found''))
           | Some gs \<Rightarrow>
               if \<not> validate_decision now decision sc
               then Inl (HTTPException 400 (Text ''Invalid decision for scenario''))
               else (case process_decision now gs sc decision of
                       Inl e \<Rightarrow> Inl (HTTPException 500 (Str e))
                     | Inr r \<Rightarrow> Inr r)))"

section \<open>Concrete inputs\<close>

text \<open>The starting state of the specification's scenario: financial resources 1,000,000,
  reputation 50, every stakeholder at 50, market share 5, level 1, no experience, a small
  company.\<close>

definition start_state :: game_state where
  "start_state = initialize_game_state ''p1'' 0"

definition scenario_half :: scenario where
  "scenario_half =
     \<lparr>difficulty_level = 1 / 2, possible_approaches = [\<lparr>approach_ident = ''a1''\<rparr>],
      time_constraint = None, created_at = 0, required_parameters = []\<rparr>"

text \<open>A decision in favour of the employees, the same decision for an approach the
  scenario does not have, and the decision of the specification's scenario.\<close>

definition decision_employees :: game_decision where
  "decision_employees =
     \<lparr>approach_id = ''a1'', parameters = [], dtype = ''policy'',
      impacts = [(''employees'', 20)]\<rparr>"

definition decision_unknown_approach :: game_decision where
  "decision_unknown_approach = decision_employees\<lparr>approach_id := ''zz''\<rparr>"

definition decision_employees_financial :: game_decision where
  "decision_employees_financial =
     \<lparr>approach_id = ''a1'', parameters = [], dtype = ''policy'',
      impacts = [(''employees'', 20), (''financial'', - 10000)]\<rparr>"

definition decision_big_gain :: game_decision where
  "decision_big_gain =
     \<lparr>approach_id = ''a1'', parameters = [], dtype = ''policy'',
      impacts = [(''employees'', 20000)]\<rparr>"

text \<open>The states that \<^verbatim>\<open>process_decision\<close> returns on the starting state, at difficulty
  0.5 and the clock at 0, for the decision in favour of the employees and for the decision
  with the big gain.\<close>

definition state_after_employees :: game_state where
  "state_after_employees =
     start_state
       \<lparr>reputation := 277 / 5,
        stakeholder_satisfaction :=
          [(''employees'', 62), (''customers'', 50), (''investors'', 50),
           (''community'', 50), (''environment'', 50)],
        market_share := 527 / 100, sustainability_rating := ''C+'',
        experience_points := 198,
        metadata :=
          Some [(''employees'',
                 [\<lparr>decision_type = ''policy'', impact = 12, timestamp = 0\<rparr>])]\<rparr>"

definition state_after_big_gain :: game_state where
  "state_after_big_gain =
     start_state
       \<lparr>reputation := 5450,
        stakeholder_satisfaction :=
          [(''employees'', 100), (''customers'', 50), (''investors'', 50),
           (''community'', 50), (''environment'', 50)],
        market_share := 100, sustainability_rating := ''C+'',
        current_level := 2, experience_points := 8890,
        metadata :=
          Some [(''employees'',
                 [\<lparr>decision_type = ''policy'', impact = 12000, timestamp = 0\<rparr>])]\<rparr>"





section \<open>Game logic with object identity\<close>

text \<open>
  In Python a GameState object holds references to its satisfaction dict, its list of
  ongoing events and its metadata dict, and \<^verbatim>\<open>process_decision\<close> writes into these objects
  in place. The store keeps the three kinds of container under their addresses; a GameState
  object is a state whose three container fields are addresses. Its scalar fields are
  assigned on the object itself.
\<close>

type_synonym ref = nat

record heap =
  satisfaction_dicts :: "ref \<Rightarrow> (string \<times> real) list"
  event_lists :: "ref \<Rightarrow> event list"
  metadata_dicts :: "ref \<Rightarrow> (string \<times> memory list) list option"
  next_ref :: ref

type_synonym game_state_obj = "(ref, ref, ref) state_of"

text \<open>The state that a holder of the object \<open>obj\<close> sees in the store \<open>h\<close>.\<close>

definition deref :: "heap \<Rightarrow> game_state_obj \<Rightarrow> game_state" where
  "deref h obj =
     \<lparr>player_id = player_id obj, company_size = company_size obj,
      financial_resources = financial_resources obj, human_resources = human_resources obj,
      reputation = reputation obj,
      stakeholder_satisfaction = satisfaction_dicts h (stakeholder_satisfaction obj),
      market_share = market_share obj, sustainability_rating = sustainability_rating obj,
      active_challenges = active_challenges obj,
      ongoing_events = event_lists h (ongoing_events obj),
      current_level = current_level obj, experience_points = experience_points obj,
      last_update = last_update obj,
      metadata = metadata_dicts h (metadata obj)\<rparr>"

text \<open>\<^verbatim>\<open>game_state.copy()\<close>. The class GameState lies outside the modules embedded here; the
  endpoints use it as a pydantic model (\<^verbatim>\<open>response_model=GameState\<close>,
  \<^verbatim>\<open>GameState(**cached_state)\<close>, \<^verbatim>\<open>state.dict()\<close>), whose \<^verbatim>\<open>copy()\<close> without argument is, like
  the \<^verbatim>\<open>copy()\<close> of Python's own containers, shallow: a new object whose fields refer to the
  same containers. The depth is a parameter of the model; \<open>Deep\<close> is what
  \<^verbatim>\<open>copy(deep=True)\<close> would do, with fresh containers of the same content.\<close>

datatype copy_depth = Shallow | Deep

fun state_copy :: "copy_depth \<Rightarrow> heap \<Rightarrow> game_state_obj \<Rightarrow> game_state_obj \<times> heap" where
  "state_copy Shallow h obj = (obj, h)"
| "state_copy Deep h obj =
     (let n = next_ref h
      in (obj\<lparr>stakeholder_satisfaction := n, ongoing_events := n, metadata := n\<rparr>,
          h\<lparr>satisfaction_dicts :=
               (satisfaction_dicts h)(n := satisfaction_dicts h (stakeholder_satisfaction obj)),
            event_lists := (event_lists h)(n := event_lists h (ongoing_events obj)),
            metadata_dicts := (metadata_dicts h)(n := metadata_dicts h (metadata obj)),
            next_ref := n + 1\<rparr>))"

text \<open>The loop of \<^verbatim>\<open>_apply_impacts\<close> over the canonical stakeholders, writing into the
  satisfaction dict at the address \<open>r\<close>.\<close>

fun update_satisfaction_h ::
  "(string \<times> real) list \<Rightarrow> string list \<Rightarrow> ref \<Rightarrow> heap \<Rightarrow> (py_error + unit) \<times> heap" where
  "update_satisfaction_h imp [] r h = (Inr (), h)"
| "update_satisfaction_h imp (stakeholder # rest) r h =
     (case map_of imp stakeholder of
        None \<Rightarrow> update_satisfaction_h imp rest r h
      | Some change \<Rightarrow>
          (case getitem (satisfaction_dicts h r) stakeholder of
             Inl e \<Rightarrow> (Inl e, h)
           | Inr current \<Rightarrow>
               update_satisfaction_h imp rest r
                 (h\<lparr>satisfaction_dicts :=
                      (satisfaction_dicts h)
                        (r := AList.update stakeholder (clamp100 (current + change))
                                (satisfaction_dicts h r))\<rparr>)))"

definition apply_impacts_h ::
  "copy_depth \<Rightarrow> heap \<Rightarrow> game_state_obj \<Rightarrow> (string \<times> real) list
     \<Rightarrow> (py_error + game_state_obj) \<times> heap" where
  "apply_impacts_h depth h obj imp =
     (let (updated_state, h0) = state_copy depth h obj;
          u1 = updated_state
                 \<lparr>financial_resources := financial_resources updated_state + get0 imp ''financial''\<rparr>;
          u2 = u1\<lparr>reputation := reputation u1 + get0 imp ''reputation''\<rparr>;
          (r, h1) = update_satisfaction_h imp STAKEHOLDER_TYPES (stakeholder_satisfaction u2) h0
      in case r of
           Inl e \<Rightarrow> (Inl e, h1)
         | Inr u \<Rightarrow>
             (case calculate_new_market_share (deref h1 u2) imp of
                Inl e \<Rightarrow> (Inl e, h1)
              | Inr share \<Rightarrow>
                  (let u3 = u2\<lparr>market_share := share\<rparr>
                   in case calculate_sustainability_rating (deref h1 u3) of
                        Inl e \<Rightarrow> (Inl e, h1)
                      | Inr rating \<Rightarrow> (Inr (u3\<lparr>sustainability_rating := rating\<rparr>), h1))))"

text \<open>\<^verbatim>\<open>_handle_events\<close> appends to the list object of the state it is given, and
  \<^verbatim>\<open>_update_stakeholder_memories\<close> writes into its metadata dict.\<close>

definition handle_events_h :: "heap \<Rightarrow> game_state_obj \<Rightarrow> event list \<Rightarrow> heap" where
  "handle_events_h h obj events =
     h\<lparr>event_lists :=
         (event_lists h)
           (ongoing_events obj := append_events events (event_lists h (ongoing_events obj)))\<rparr>"

definition update_stakeholder_memories_h ::
  "int \<Rightarrow> heap \<Rightarrow> game_state_obj \<Rightarrow> game_decision \<Rightarrow> (string \<times> real) list \<Rightarrow> heap" where
  "update_stakeholder_memories_h now h obj decision imp =
     h\<lparr>metadata_dicts :=
         (metadata_dicts h)
           (metadata obj :=
              update_memories now (dtype decision) imp STAKEHOLDER_TYPES
                (metadata_dicts h (metadata obj)))\<rparr>"

definition process_decision_h ::
  "copy_depth \<Rightarrow> int \<Rightarrow> heap \<Rightarrow> game_state_obj \<Rightarrow> scenario \<Rightarrow> game_decision
     \<Rightarrow> (py_error + (game_state_obj \<times> (string \<times> real) list)) \<times> heap" where
  "process_decision_h depth now h obj sc decision =
     (case calculate_decision_impacts decision sc (deref h obj) of
        Inl e \<Rightarrow> (Inl e, h)
      | Inr immediate_impacts \<Rightarrow>
          (case apply_impacts_h depth h obj immediate_impacts of
             (Inl e, h1) \<Rightarrow> (Inl e, h1)
           | (Inr updated_state, h1) \<Rightarrow>
               (let events = check_triggered_events (deref h1 updated_state) immediate_impacts;
                    h2 = (if events \<noteq> [] then handle_events_h h1 updated_state events else h1);
                    xp_gained = calculate_experience_points decision immediate_impacts
                                  (difficulty_level sc);
                    s2 = updated_state
                           \<lparr>experience_points := experience_points updated_state + xp_gained\<rparr>;
                    s3 = check_level_up s2;
                    h3 = update_stakeholder_memories_h now h2 s3 decision immediate_impacts
                in (Inr (s3, immediate_impacts), h3))))"

text \<open>The starting state as an object: its three containers are at the address 0 of their
  stores.\<close>

definition start_heap :: heap where
  "start_heap =
     \<lparr>satisfaction_dicts = (\<lambda>r. [])(0 := stakeholder_satisfaction start_state),
      event_lists = (\<lambda>r. [])(0 := ongoing_events start_state),
      metadata_dicts = (\<lambda>r. None)(0 := metadata start_state),
      next_ref = 1\<rparr>"

definition start_obj :: game_state_obj where
  "start_obj =
     \<lparr>player_id = player_id start_state, company_size = company_size start_state,
      financial_resources = financial_resources start_state,
      human_resources = human_resources start_state, reputation = reputation start_state,
      stakeholder_satisfaction = 0, market_share = market_share start_state,
      sustainability_rating = sustainability_rating start_state,
      active_challenges = active_challenges start_state, ongoing_events = 0,
      current_level = current_level start_state,
      experience_points = experience_points start_state,
      last_update = last_update start_state, metadata = 0\<rparr>"

text \<open>Two stores agree on every container below the address \<open>n\<close>.\<close>

definition same_below :: "ref \<Rightarrow> heap \<Rightarrow> heap \<Rightarrow> bool" where
  "same_below n h h' =
     (\<forall>r < n. satisfaction_dicts h' r = satisfaction_dicts h r
              \<and> event_lists h' r = event_lists h r
              \<and> metadata_dicts h' r = metadata_dicts h r)"

text \<open>A decision that costs the employees 50 points before scaling, the object that
  \<^verbatim>\<open>process_decision\<close> returns for it on the starting state, and what the holder of the
  starting state's object sees after the call when the copy is shallow.\<close>

definition decision_layoffs :: game_decision where
  "decision_layoffs =
     \<lparr>approach_id = ''a1'', parameters = [], dtype = ''policy'',
      impacts = [(''employees'', - 50)]\<rparr>"

definition obj_after_layoffs :: game_state_obj where
  "obj_after_layoffs =
     start_obj\<lparr>reputation := 73 / 2, market_share := 173 / 40, sustainability_rating := ''C+'',
               experience_points := 190\<rparr>"

definition prior_state_after_layoffs :: game_state where
  "prior_state_after_layoffs =
     start_state
       \<lparr>stakeholder_satisfaction :=
          [(''employees'', 20), (''customers'', 50), (''investors'', 50),
           (''community'', 50), (''environment'', 50)],
        ongoing_events := [stakeholder_crisis ''employees''],
        metadata :=
          Some [(''employees'',
                 [\<lparr>decision_type = ''policy'', impact = - 30, timestamp = 0\<rparr>])]\<rparr>"

section \<open>Pattern analyzer: numbers\<close>

text \<open>
  The analyzer computes with numpy, whose mean of an empty list is \<^verbatim>\<open>nan\<close> (with a warning,
  not an exception) and whose division by zero does not raise either. A value of the
  analyzer is a finite number, computed exactly, or \<open>NaN\<close>; \<open>NaN\<close> propagates through the
  arithmetic and every comparison with it is false.
\<close>

datatype npfloat = Fin real | NaN

fun fl2 :: "(real \<Rightarrow> real \<Rightarrow> real) \<Rightarrow> npfloat \<Rightarrow> npfloat \<Rightarrow> npfloat" where
  "fl2 f (Fin x) (Fin y) = Fin (f x y)"
| "fl2 f _ _ = NaN"

definition fl_add :: "npfloat \<Rightarrow> npfloat \<Rightarrow> npfloat" where
  "fl_add = fl2 (+)"

definition fl_sub :: "npfloat \<Rightarrow> npfloat \<Rightarrow> npfloat" where
  "fl_sub = fl2 (-)"

definition fl_mul :: "npfloat \<Rightarrow> npfloat \<Rightarrow> npfloat" where
  "fl_mul = fl2 (*)"

text \<open>Division by a constant or a count that is not zero.\<close>

definition fl_div :: "npfloat \<Rightarrow> real \<Rightarrow> npfloat" where
  "fl_div a c = fl2 (/) a (Fin c)"

fun fl_abs :: "npfloat \<Rightarrow> npfloat" where
  "fl_abs (Fin x) = Fin \<bar>x\<bar>"
| "fl_abs NaN = NaN"

fun fl_less :: "npfloat \<Rightarrow> npfloat \<Rightarrow> bool" where
  "fl_less (Fin x) (Fin y) = (x < y)"
| "fl_less _ _ = False"

text \<open>Python's \<^verbatim>\<open>min(a, b)\<close> and \<^verbatim>\<open>max(a, b)\<close> keep the first argument unless the second
  compares strictly below (above) it.\<close>

definition py_min :: "npfloat \<Rightarrow> npfloat \<Rightarrow> npfloat" where
  "py_min a b = (if fl_less b a then b else a)"

definition py_max :: "npfloat \<Rightarrow> npfloat \<Rightarrow> npfloat" where
  "py_max a b = (if fl_less a b then b else a)"

text \<open>\<^verbatim>\<open>max(0, min(1, x))\<close>.\<close>

definition clamp01 :: "npfloat \<Rightarrow> npfloat" where
  "clamp01 x = py_max (Fin 0) (py_min (Fin 1) x)"

fun fl_sum :: "npfloat list \<Rightarrow> npfloat" where
  "fl_sum [] = Fin 0"
| "fl_sum (x # xs) = fl_add x (fl_sum xs)"

definition np_mean :: "npfloat list \<Rightarrow> npfloat" where
  "np_mean xs = (if xs = [] then NaN else fl_div (fl_sum xs) (real (length xs)))"

definition np_std :: "npfloat list \<Rightarrow> npfloat" where
  "np_std xs =
     (let m = np_mean xs
      in case np_mean (map (\<lambda>x. fl_mul (fl_sub x m) (fl_sub x m)) xs) of
           NaN \<Rightarrow> NaN
         | Fin v \<Rightarrow> Fin (sqrt v))"

text \<open>\<^verbatim>\<open>np.polyfit(range(n), ys, 1)[0]\<close> is a routine of the numerical library; the
  model takes it as the parameter \<open>polyfit\<close>, a function from the list of values to the
  slope or an exception. On finite values it is the slope of the least-squares line through
  the points \<open>(i, ys ! i)\<close>, which is \<open>least_squares_slope\<close>; the analyzer calls it with five
  points or more.\<close>

definition least_squares_slope :: "npfloat list \<Rightarrow> py_error + npfloat" where
  "least_squares_slope ys =
     (if NaN \<in> set ys then Inr NaN
      else
        (let vs = map (\<lambda>y. case y of Fin v \<Rightarrow> v | NaN \<Rightarrow> 0) ys;
             n = length vs;
             xs = map real [0..<n];
             xbar = sum_list xs / real n;
             ybar = sum_list vs / real n
         in Inr (Fin ((\<Sum>(x, y) \<leftarrow> zip xs vs. (x - xbar) * (y - ybar))
                      / (\<Sum>x \<leftarrow> xs. (x - xbar) * (x - xbar))))))"

text \<open>Sequencing of computations that may raise.\<close>

definition then_do :: "py_error + 'a \<Rightarrow> ('a \<Rightarrow> py_error + 'b) \<Rightarrow> py_error + 'b" where
  "then_do r f = (case r of Inl e \<Rightarrow> Inl e | Inr v \<Rightarrow> f v)"

section \<open>Pattern analyzer: data model\<close>

text \<open>The dataclasses Decision and LearningPattern of \<^verbatim>\<open>pattern_analyzer.py\<close>. The
  timestamp is in seconds; \<open>decision_id\<close> is the field \<^verbatim>\<open>id\<close>.\<close>

record decision =
  decision_id :: string
  timestamp :: int
  scenario_type :: string
  choice :: string
  stakeholders_affected :: "string list"
  impacts :: "(string \<times> real) list"
  rationale :: string
  time_spent :: int
  difficulty_level :: real

record learning_pattern =
  bias_score :: npfloat
  confidence :: npfloat
  stakeholder_preferences :: "(string \<times> npfloat) list"
  avoided_topics :: "string list"
  skill_levels :: "(string \<times> npfloat) list"
  learning_rate :: npfloat
  decision_speed :: npfloat
  consistency_score :: npfloat

definition skill_categories :: "(string \<times> string list) list" where
  "skill_categories =
     [(''stakeholder_management'',
         [''employee_relations'', ''community_engagement'', ''investor_relations'']),
      (''ethical_reasoning'',
         [''principle_application'', ''consequence_analysis'', ''moral_judgment'']),
      (''strategic_thinking'',
         [''long_term_planning'', ''risk_assessment'', ''resource_allocation'']),
      (''leadership'',
         [''decision_making'', ''crisis_management'', ''change_management''])]"

section \<open>Pattern analyzer: the profile fields\<close>

definition generate_initial_pattern :: learning_pattern where
  "generate_initial_pattern =
     \<lparr>bias_score = Fin 0,
      confidence = Fin (1 / 2),
      stakeholder_preferences =
        [(''employees'', Fin (1 / 2)), (''community'', Fin (1 / 2)),
         (''investors'', Fin (1 / 2)), (''environment'', Fin (1 / 2))],
      avoided_topics = [],
      skill_levels = map (\<lambda>(category, subcategories). (category, Fin (3 / 10))) skill_categories,
      learning_rate = Fin (1 / 2),
      decision_speed = Fin (1 / 2),
      consistency_score = Fin (1 / 2)\<rparr>"

text \<open>One round of the loop of \<^verbatim>\<open>_calculate_bias_score\<close>: the entries
  \<^verbatim>\<open>biases['short_term']\<close> and \<^verbatim>\<open>biases['financial']\<close> before and after the decision.\<close>

definition bias_step :: "npfloat \<times> npfloat \<Rightarrow> decision \<Rightarrow> npfloat \<times> npfloat" where
  "bias_step b d =
     (let imp = impacts d;
          short_term_impact = get0 imp ''immediate'';
          long_term_impact = get0 imp ''long_term'';
          short_term = fl_add (fst b) (Fin ((short_term_impact - long_term_impact) / 100));
          financial_impact = get0 imp ''financial'';
          stakeholder_impact = np_mean (map (\<lambda>s. Fin (get0 imp s)) (stakeholders_affected d));
          financial =
            fl_add (snd b) (fl_div (fl_sub (Fin financial_impact) stakeholder_impact) 100)
      in (short_term, financial))"

text \<open>The dict \<^verbatim>\<open>biases\<close> has three entries; \<^verbatim>\<open>'stakeholder'\<close> stays 0.\<close>

definition calculate_bias_score :: "decision list \<Rightarrow> npfloat" where
  "calculate_bias_score decisions =
     (let b = foldl bias_step (Fin 0, Fin 0) decisions
      in np_mean [fst b, snd b, Fin 0])"

definition calculate_impact_similarity ::
  "(string \<times> real) list \<Rightarrow> (string \<times> real) list \<Rightarrow> npfloat" where
  "calculate_impact_similarity impacts1 impacts2 =
     (let all_keys = remdups (map fst impacts1 @ map fst impacts2);
          differences = map (\<lambda>key. Fin (\<bar>get0 impacts1 key - get0 impacts2 key\<bar> / 200)) all_keys
      in fl_sub (Fin 1) (np_mean differences))"

text \<open>The quotient of the two set sizes is a Python division of integers: it raises on an
  empty union.\<close>

definition calculate_decision_similarity :: "decision \<Rightarrow> decision \<Rightarrow> py_error + npfloat" where
  "calculate_decision_similarity decision1 decision2 =
     (let impact_similarity = calculate_impact_similarity (impacts decision1) (impacts decision2);
          inter = length (filter (\<lambda>s. s \<in> set (stakeholders_affected decision2))
                            (remdups (stakeholders_affected decision1)));
          union = length (remdups (stakeholders_affected decision1 @ stakeholders_affected decision2))
      in if union = 0 then Inl ZeroDivisionError
         else Inr (fl_div (fl_add impact_similarity (Fin (real inter / real union))) 2))"

text \<open>\<^verbatim>\<open>min(decision.time_spent / avg_time, 2)\<close>, a division by a numpy float. For a zero
  average a positive time gives \<^verbatim>\<open>inf\<close>, cut to 2; a zero time gives \<^verbatim>\<open>nan\<close>; a negative time
  gives \<^verbatim>\<open>-inf\<close>, which is kept and which the standard deviation, its only reader, turns
  into \<^verbatim>\<open>nan\<close>: it is \<open>NaN\<close> here.\<close>

definition normalized_time :: "int \<Rightarrow> npfloat \<Rightarrow> npfloat" where
  "normalized_time t avg_time =
     (case avg_time of
        NaN \<Rightarrow> NaN
      | Fin a \<Rightarrow>
          if a = 0 then (if t > 0 then Fin 2 else NaN)
          else py_min (Fin (real_of_int t / a)) (Fin 2))"

text \<open>The similarities that the loop of \<^verbatim>\<open>_calculate_confidence\<close> collects: each decision
  against its predecessor when both have the same scenario type.\<close>

fun consecutive_similarities :: "decision list \<Rightarrow> py_error + npfloat list" where
  "consecutive_similarities (prev_decision # d # rest) =
     (if scenario_type d = scenario_type prev_decision
      then then_do (calculate_decision_similarity d prev_decision)
             (\<lambda>similarity. then_do (consecutive_similarities (d # rest))
                (\<lambda>more. Inr (similarity # more)))
      else consecutive_similarities (d # rest))"
| "consecutive_similarities ds = Inr []"

definition calculate_confidence :: "decision list \<Rightarrow> py_error + npfloat" where
  "calculate_confidence decisions =
     (let sorted_decisions = sort_key timestamp decisions;
          recent_decisions = drop (length sorted_decisions - 5) sorted_decisions;
          avg_time = np_mean (map (\<lambda>d. Fin (real_of_int (time_spent d))) recent_decisions);
          time_spent_factors = map (\<lambda>d. normalized_time (time_spent d) avg_time) recent_decisions;
          changes = 0
      in then_do (consecutive_similarities recent_decisions)
           (\<lambda>consistency.
              if recent_decisions = [] then Inl ZeroDivisionError
              else
                (let confidence_score =
                       np_mean [fl_sub (Fin 1) (np_std time_spent_factors),
                                (if consistency \<noteq> [] then np_mean consistency else Fin (1 / 2)),
                                Fin (1 - changes / real (length recent_decisions))]
                 in Inr (clamp01 confidence_score))))"

text \<open>\<^verbatim>\<open>defaultdict(list)\<close>: append a value to the list under a key.\<close>

definition append_under :: "string \<Rightarrow> 'a \<Rightarrow> (string \<times> 'a list) list \<Rightarrow> (string \<times> 'a list) list" where
  "append_under k v al =
     AList.update k ((case map_of al k of None \<Rightarrow> [] | Some vs \<Rightarrow> vs) @ [v]) al"

definition analyze_stakeholder_preferences :: "decision list \<Rightarrow> (string \<times> npfloat) list" where
  "analyze_stakeholder_preferences decisions =
     (let stakeholder_impacts =
            foldl (\<lambda>acc d. foldl (\<lambda>acc stakeholder.
                                    append_under stakeholder (get0 (impacts d) stakeholder) acc)
                                 acc (stakeholders_affected d))
                  [] decisions
      in map (\<lambda>(stakeholder, imps).
                (stakeholder, fl_div (fl_add (np_mean (map Fin imps)) (Fin 100)) 200))
             stakeholder_impacts)"

definition is_avoidance_behavior :: "decision \<Rightarrow> bool" where
  "is_avoidance_behavior d =
     (let avg_impact = np_mean (map (\<lambda>(k, v). Fin v) (impacts d));
          quick_decision = time_spent d < 15;
          minimal_impact = fl_less (fl_abs avg_impact) (Fin 10)
      in quick_decision \<and> minimal_impact)"

text \<open>\<^verbatim>\<open>defaultdict(int)\<close>: add to the count under a key.\<close>

definition count_under :: "string \<Rightarrow> nat \<Rightarrow> (string \<times> nat) list \<Rightarrow> (string \<times> nat) list" where
  "count_under k n al = AList.update k ((case map_of al k of None \<Rightarrow> 0 | Some c \<Rightarrow> c) + n) al"

definition identify_avoided_topics :: "decision list \<Rightarrow> string list" where
  "identify_avoided_topics decisions =
     (let topic_counts = foldl (\<lambda>acc d. count_under (scenario_type d) 1 acc) [] decisions;
          topic_avoidance =
            foldl (\<lambda>acc d. if is_avoidance_behavior d then count_under (scenario_type d) 1 acc
                            else acc)
                  [] decisions
      in map fst
           (filter (\<lambda>(topic, count).
                      real (case map_of topic_avoidance topic of None \<Rightarrow> 0 | Some c \<Rightarrow> c)
                        / real count > 7 / 10)
                   topic_counts))"

text \<open>\<^verbatim>\<open>_assess_skill_levels\<close> calls \<^verbatim>\<open>self._calculate_skill_score(decision, subcategories)\<close>,
  a method that the class PatternAnalyzer does not define. It is the
  parameter \<open>skill_score\<close> of the model; with the class as it stands the call raises
  AttributeError, which is \<open>missing_skill_score\<close>.\<close>

definition missing_skill_score :: "decision \<Rightarrow> string list \<Rightarrow> py_error + npfloat" where
  "missing_skill_score d subcategories = Inl (AttributeError ''_calculate_skill_score'')"

text \<open>The scores of one decision, one per skill category.\<close>

fun decision_skill_scores ::
  "(decision \<Rightarrow> string list \<Rightarrow> py_error + npfloat) \<Rightarrow> decision \<Rightarrow> (string \<times> string list) list
     \<Rightarrow> (string \<times> npfloat list) list \<Rightarrow> py_error + (string \<times> npfloat list) list" where
  "decision_skill_scores skill_score d [] skills = Inr skills"
| "decision_skill_scores skill_score d ((category, subcategories) # rest) skills =
     then_do (skill_score d subcategories)
       (\<lambda>score. decision_skill_scores skill_score d rest (append_under category score skills))"

fun collect_skill_scores ::
  "(decision \<Rightarrow> string list \<Rightarrow> py_error + npfloat) \<Rightarrow> decision list
     \<Rightarrow> (string \<times> npfloat list) list \<Rightarrow> py_error + (string \<times> npfloat list) list" where
  "collect_skill_scores skill_score [] skills = Inr skills"
| "collect_skill_scores skill_score (d # rest) skills =
     then_do (decision_skill_scores skill_score d skill_categories skills)
       (\<lambda>skills'. collect_skill_scores skill_score rest skills')"

definition assess_skill_levels ::
  "(decision \<Rightarrow> string list \<Rightarrow> py_error + npfloat) \<Rightarrow> decision list
     \<Rightarrow> py_error + (string \<times> npfloat) list" where
  "assess_skill_levels skill_score decisions =
     then_do (collect_skill_scores skill_score decisions [])
       (\<lambda>skills. Inr (map (\<lambda>(category, scores). (category, np_mean scores)) skills))"

definition calculate_window_performance :: "decision list \<Rightarrow> npfloat" where
  "calculate_window_performance decisions =
     np_mean (map (\<lambda>d. let impact_score = np_mean (map (\<lambda>(k, v). Fin v) (impacts d));
                            difficulty_adj = difficulty_level d
                        in fl_mul (fl_div (fl_add impact_score (Fin 100)) 200) (Fin difficulty_adj))
                  decisions)"

definition calculate_learning_rate ::
  "(npfloat list \<Rightarrow> py_error + npfloat) \<Rightarrow> decision list \<Rightarrow> py_error + npfloat" where
  "calculate_learning_rate polyfit decisions =
     (if length decisions < 10 then Inr (Fin (1 / 2))
      else
        (let sorted_decisions = sort_key timestamp decisions;
             window_size = 5;
             performance_trend =
               map (\<lambda>i. calculate_window_performance (take window_size (drop i sorted_decisions)))
                   [0..<length sorted_decisions - window_size]
         in if performance_trend = [] then Inr (Fin (1 / 2))
            else then_do (polyfit performance_trend)
                   (\<lambda>learning_rate. Inr (clamp01 (fl_div (fl_add learning_rate (Fin 1)) 2)))))"

text \<open>The quotient \<^verbatim>\<open>expected_time / actual_time\<close> is a Python division by the integer
  \<^verbatim>\<open>time_spent\<close>: it raises when that is zero.\<close>

fun speed_scores :: "decision list \<Rightarrow> py_error + npfloat list" where
  "speed_scores [] = Inr []"
| "speed_scores (d # rest) =
     (let expected_time = 30 + 90 * difficulty_level d;
          actual_time = time_spent d
      in if actual_time = 0 then Inl ZeroDivisionError
         else then_do (speed_scores rest)
                (\<lambda>more. Inr (Fin (expected_time / real_of_int actual_time) # more)))"

definition analyze_decision_speed :: "decision list \<Rightarrow> py_error + npfloat" where
  "analyze_decision_speed decisions =
     (if decisions = [] then Inr (Fin (1 / 2))
      else then_do (speed_scores decisions)
             (\<lambda>scores. Inr (clamp01 (np_mean scores))))"

text \<open>The similarities of one decision with the decisions after it, and of all pairs
  \<open>i < j\<close> of a list, in the order of the two nested loops of \<^verbatim>\<open>_calculate_consistency\<close>.\<close>

fun similarities_with :: "decision \<Rightarrow> decision list \<Rightarrow> py_error + npfloat list" where
  "similarities_with d [] = Inr []"
| "similarities_with d (d' # rest) =
     then_do (calculate_decision_similarity d d')
       (\<lambda>similarity. then_do (similarities_with d rest) (\<lambda>more. Inr (similarity # more)))"

fun pairwise_similarities :: "decision list \<Rightarrow> py_error + npfloat list" where
  "pairwise_similarities [] = Inr []"
| "pairwise_similarities (d # rest) =
     then_do (similarities_with d rest)
       (\<lambda>first. then_do (pairwise_similarities rest) (\<lambda>more. Inr (first @ more)))"

fun type_consistencies :: "(string \<times> decision list) list \<Rightarrow> py_error + npfloat list" where
  "type_consistencies [] = Inr []"
| "type_consistencies ((stype, type_decisions) # rest) =
     (if length type_decisions < 2 then type_consistencies rest
      else then_do (pairwise_similarities type_decisions)
             (\<lambda>similarities.
                then_do (type_consistencies rest)
                  (\<lambda>more. Inr (if similarities \<noteq> [] then np_mean similarities # more else more))))"

definition calculate_consistency :: "decision list \<Rightarrow> py_error + npfloat" where
  "calculate_consistency decisions =
     (if length decisions < 3 then Inr (Fin (1 / 2))
      else
        (let scenario_decisions =
               foldl (\<lambda>acc d. append_under (scenario_type d) d acc) [] decisions
         in then_do (type_consistencies scenario_decisions)
              (\<lambda>consistency_scores.
                 Inr (if consistency_scores \<noteq> [] then np_mean consistency_scores
                      else Fin (1 / 2)))))"

section \<open>Pattern analyzer: analyze_patterns\<close>

text \<open>The expression \<^verbatim>\<open>LearningPattern(...)\<close> inside the \<^verbatim>\<open>try\<close>: the fields are computed in
  the order of the keyword arguments, and the first exception ends the computation.\<close>

definition compute_pattern ::
  "(decision \<Rightarrow> string list \<Rightarrow> py_error + npfloat) \<Rightarrow> (npfloat list \<Rightarrow> py_error + npfloat)
     \<Rightarrow> decision list \<Rightarrow> py_error + learning_pattern" where
  "compute_pattern skill_score polyfit decisions =
     (let b = calculate_bias_score decisions
      in then_do (calculate_confidence decisions)
           (\<lambda>c. let p = analyze_stakeholder_preferences decisions;
                     a = identify_avoided_topics decisions
                 in then_do (assess_skill_levels skill_score decisions)
                      (\<lambda>s. then_do (calculate_learning_rate polyfit decisions)
                         (\<lambda>l. then_do (analyze_decision_speed decisions)
                            (\<lambda>v. then_do (calculate_consistency decisions)
                               (\<lambda>k. Inr \<lparr>bias_score = b, confidence = c,
                                          stakeholder_preferences = p, avoided_topics = a,
                                          skill_levels = s, learning_rate = l,
                                          decision_speed = v, consistency_score = k\<rparr>))))))"

text \<open>\<^verbatim>\<open>analyze_patterns\<close>; \<open>min_decisions\<close> is the attribute set by the constructor (5 by
  default) and \<open>level\<close> is the argument \<^verbatim>\<open>current_level\<close>. An exception that left the method
  would be a result \<open>Inl e\<close>.\<close>

definition analyze_patterns ::
  "(decision \<Rightarrow> string list \<Rightarrow> py_error + npfloat) \<Rightarrow> (npfloat list \<Rightarrow> py_error + npfloat)
     \<Rightarrow> int \<Rightarrow> decision list \<Rightarrow> int \<Rightarrow> py_error + learning_pattern" where
  "analyze_patterns skill_score polyfit min_decisions decisions level =
     (if int (length decisions) < min_decisions then Inr generate_initial_pattern
      else (case compute_pattern skill_score polyfit decisions of
              Inl e \<Rightarrow> Inr generate_initial_pattern
            | Inr pattern \<Rightarrow> Inr pattern))"

section \<open>Pattern analyzer: the bias score in the words of the specification\<close>

text \<open>The two signed components of one decision: (immediate - long_term) / 100 and
  (financial - mean of the impacts on the affected stakeholders) / 100.\<close>

definition short_term_component :: "decision \<Rightarrow> real" where
  "short_term_component d =
     (get0 (impacts d) ''immediate'' - get0 (impacts d) ''long_term'') / 100"

definition financial_component :: "decision \<Rightarrow> real" where
  "financial_component d =
     (get0 (impacts d) ''financial''
        - (\<Sum>s \<leftarrow> stakeholders_affected d. get0 (impacts d) s)
            / real (length (stakeholders_affected d))) / 100"

text \<open>The specification's bias score: each component averaged over the decisions, and the
  two averages averaged together.\<close>

definition bias_score_spec :: "decision list \<Rightarrow> real" where
  "bias_score_spec decisions =
     ((\<Sum>d \<leftarrow> decisions. short_term_component d) / real (length decisions)
        + (\<Sum>d \<leftarrow> decisions. financial_component d) / real (length decisions)) / 2"

section \<open>Pattern analyzer: concrete inputs\<close>

text \<open>A skill score that succeeds, a decision that favours the immediate outcome, and the
  same decision taken in no time.\<close>

definition constant_skill_score :: "decision \<Rightarrow> string list \<Rightarrow> py_error + npfloat" where
  "constant_skill_score d subcategories = Inr (Fin (1 / 2))"

definition decision_immediate :: "int \<Rightarrow> decision" where
  "decision_immediate t =
     \<lparr>decision_id = ''d'', timestamp = t, scenario_type = ''labour'', choice = ''a1'',
      stakeholders_affected = [''employees''], impacts = [(''immediate'', 30)],
      rationale = [], time_spent = 40, difficulty_level = 1 / 2\<rparr>"

definition history_immediate :: "decision list" where
  "history_immediate = map decision_immediate [1, 2, 3, 4, 5]"

text \<open>Five decisions with an immediate impact of 100 each.\<close>

definition decision_strong :: "int \<Rightarrow> decision" where
  "decision_strong t = (decision_immediate t)\<lparr>impacts := [(''immediate'', 100)]\<rparr>"

definition history_strong :: "decision list" where
  "history_strong = map decision_strong [1, 2, 3, 4, 5]"

definition history_zero_time :: "decision list" where
  "history_zero_time = history_immediate @ [(decision_immediate 6)\<lparr>time_spent := 0\<rparr>]"

section \<open>Verification: shared lemmas on the game logic\<close>

lemma clamp100_bounds: "0 \<le> clamp100 x \<and> clamp100 x \<le> 100"
  by (simp add: clamp100_def)

lemma set_update_subset: "set (AList.update k v al) \<subseteq> insert (k, v) (set al)"
  by (induction al) auto

lemma in_range_update:
  "in_range sat \<Longrightarrow> 0 \<le> v \<Longrightarrow> v \<le> 100 \<Longrightarrow> in_range (AList.update k v sat)"
  using set_update_subset [of k v sat] by (fastforce simp: in_range_def)

lemma update_satisfaction_in_range:
  "update_satisfaction imp ks sat = Inr sat' \<Longrightarrow> in_range sat \<Longrightarrow> in_range sat'"
proof (induction ks arbitrary: sat)
  case Nil
  then show ?case by simp
next
  case (Cons k ks)
  show ?case
  proof (cases "map_of imp k")
    case None
    with Cons show ?thesis by simp
  next
    case (Some change)
    with Cons.prems obtain current where
      c: "getitem sat k = Inr current" and
      r: "update_satisfaction imp ks (AList.update k (clamp100 (current + change)) sat) = Inr sat'"
      by (auto split: sum.splits)
    have "in_range (AList.update k (clamp100 (current + change)) sat)"
      using Cons.prems(2) clamp100_bounds by (simp add: in_range_update)
    with r Cons.IH show ?thesis by blast
  qed
qed

lemma market_share_bounds:
  "calculate_new_market_share gs imp = Inr share \<Longrightarrow> 0 \<le> share \<and> share \<le> 100"
  using clamp100_bounds by (auto simp: calculate_new_market_share_def Let_def split: if_splits)

lemma apply_impacts_fields:
  assumes "apply_impacts gs imp = Inr s"
  shows "experience_points s = experience_points gs" "current_level s = current_level gs"
    "ongoing_events s = ongoing_events gs" "metadata s = metadata gs"
  using assms by (auto simp: apply_impacts_def Let_def split: sum.splits)

lemma apply_impacts_range:
  assumes "apply_impacts gs imp = Inr s" and "in_range (stakeholder_satisfaction gs)"
  shows "in_range (stakeholder_satisfaction s)"
    and "0 \<le> market_share s \<and> market_share s \<le> 100"
proof -
  from assms(1) obtain sat share where
    u: "update_satisfaction imp STAKEHOLDER_TYPES (stakeholder_satisfaction gs) = Inr sat" and
    m: "calculate_new_market_share
          (gs\<lparr>financial_resources := financial_resources gs + get0 imp ''financial'',
              reputation := reputation gs + get0 imp ''reputation'',
              stakeholder_satisfaction := sat\<rparr>) imp = Inr share" and
    s: "stakeholder_satisfaction s = sat" "market_share s = share"
    by (auto simp: apply_impacts_def Let_def split: sum.splits)
  show "in_range (stakeholder_satisfaction s)"
    using update_satisfaction_in_range [OF u assms(2)] s by simp
  show "0 \<le> market_share s \<and> market_share s \<le> 100"
    using market_share_bounds [OF m] s by simp
qed

text \<open>What a successful \<^verbatim>\<open>process_decision\<close> is made of: the impacts, the mutated state
  \<open>s\<close>, and the steps after it, which leave satisfaction and market share alone.\<close>

lemma process_decision_Inr:
  assumes "process_decision now gs sc d = Inr (gs', imp)"
  obtains s where "calculate_decision_impacts d sc gs = Inr imp" "apply_impacts gs imp = Inr s"
    "stakeholder_satisfaction gs' = stakeholder_satisfaction s"
    "market_share gs' = market_share s"
    "experience_points gs' =
       experience_points s + calculate_experience_points d imp (scenario.difficulty_level sc)"
    "current_level gs' = current_level s \<or> current_level gs' = current_level s + 1"
  using assms
  by (auto simp: process_decision_def Let_def handle_events_def check_level_up_def
      update_stakeholder_memories_def split: sum.splits if_splits)

lemma py_int_nonneg: "0 \<le> x \<Longrightarrow> 0 \<le> py_int x"
  by (simp add: py_int_def)

lemma sum_positive_nonneg: "0 \<le> (\<Sum>(k, v) \<leftarrow> filter (\<lambda>(k, v). v > 0) imp. (v::real))"
  by (induction imp) auto

lemma xp_nonneg: "0 \<le> difficulty \<Longrightarrow> 0 \<le> calculate_experience_points d imp difficulty"
  unfolding calculate_experience_points_def Let_def
  apply (rule py_int_nonneg)
  using sum_positive_nonneg [of imp] by (simp add: add_nonneg_nonneg)

text \<open>The evaluation of \<^verbatim>\<open>process_decision\<close> on the starting state, at difficulty 0.5, for
  the decision \<^verbatim>\<open>{employees: +20}\<close>: the resolved impact is 20 * 0.5 * 1.2 = 12.\<close>

lemma process_decision_employees:
  "process_decision 0 start_state scenario_half decision_employees =
     Inr (state_after_employees,
          [(''employees'', 12), (''financial'', 0), (''reputation'', 27 / 5)])"
  by code_simp

lemma process_decision_unknown_approach:
  "process_decision 0 start_state scenario_half decision_unknown_approach =
     Inr (state_after_employees,
          [(''employees'', 12), (''financial'', 0), (''reputation'', 27 / 5)])"
  by code_simp

text \<open>The same for the decision \<^verbatim>\<open>{employees: +20000}\<close>: the experience gained, 8890, is
  above the requirements of level 1 (1000), level 2 (1500) and level 3 (2250).\<close>

lemma process_decision_big_gain:
  "process_decision 0 start_state scenario_half decision_big_gain =
     Inr (state_after_big_gain,
          [(''employees'', 12000), (''financial'', 0), (''reputation'', 5400)])"
  by code_simp

lemma start_state_in_range:
  "in_range (stakeholder_satisfaction start_state)
   \<and> 0 \<le> market_share start_state \<and> market_share start_state \<le> 100"
  by code_simp

text \<open>No function that \<^verbatim>\<open>process_decision\<close> calls reads the approach identifier of the
  decision or the approach list of the scenario.\<close>

lemma financial_impact_approach:
  "calculate_financial_impact (d\<lparr>approach_id := a\<rparr>) gs = calculate_financial_impact d gs"
  by (simp add: calculate_financial_impact_def)

lemma reputation_impact_approach:
  "calculate_reputation_impact (d\<lparr>approach_id := a\<rparr>) imp = calculate_reputation_impact d imp"
  by (simp add: calculate_reputation_impact_def)

lemma experience_points_approach:
  "calculate_experience_points (d\<lparr>approach_id := a\<rparr>) imp dl =
   calculate_experience_points d imp dl"
  by (simp add: calculate_experience_points_def)

lemma memories_approach:
  "update_stakeholder_memories now s (d\<lparr>approach_id := a\<rparr>) imp =
   update_stakeholder_memories now s d imp"
  by (simp add: update_stakeholder_memories_def)

lemma decision_impacts_approach:
  "calculate_decision_impacts (d\<lparr>approach_id := a\<rparr>) (sc\<lparr>possible_approaches := aps\<rparr>) gs =
   calculate_decision_impacts d sc gs"
  unfolding calculate_decision_impacts_def financial_impact_approach reputation_impact_approach
  by simp

lemma difficulty_approaches:
  "scenario.difficulty_level (sc\<lparr>possible_approaches := aps\<rparr>) = scenario.difficulty_level sc"
  by simp

lemma process_decision_approach:
  "process_decision now gs (sc\<lparr>possible_approaches := aps\<rparr>) (d\<lparr>approach_id := a\<rparr>) =
   process_decision now gs sc d"
  unfolding process_decision_def decision_impacts_approach experience_points_approach
    memories_approach difficulty_approaches
  by (rule refl)

text \<open>The division in \<^verbatim>\<open>_calculate_new_market_share\<close> has no guard: on a state without
  financial resources it raises.\<close>

lemma market_share_zero_resources:
  "financial_resources gs = 0 \<Longrightarrow> calculate_new_market_share gs imp = Inl ZeroDivisionError"
  by (simp add: calculate_new_market_share_def)



section \<open>C1: a decision for an approach the scenario does not have\<close>

text \<open>
  C1, as stated: for every decision whose approach identifier is not among the scenario's
  approach identifiers, \<^verbatim>\<open>process_decision\<close> fails with a validation error and the prior state
  is returned unmodified. It does not hold: \<^verbatim>\<open>process_decision\<close> never reads the identifier.
  On the starting state, the scenario with the single approach \<^verbatim>\<open>a1\<close> and a decision for the
  approach \<^verbatim>\<open>zz\<close> it succeeds, and the state it returns differs from the prior one.
\<close>

theorem C1_counterexample:
  "approach_id decision_unknown_approach
     \<notin> set (map approach_ident (possible_approaches scenario_half))
   \<and> process_decision 0 start_state scenario_half decision_unknown_approach =
       Inr (state_after_employees,
            [(''employees'', 12), (''financial'', 0), (''reputation'', 27 / 5)])
   \<and> state_after_employees \<noteq> start_state"
proof -
  have "approach_id decision_unknown_approach
          \<notin> set (map approach_ident (possible_approaches scenario_half))"
    by code_simp
  moreover have "state_after_employees \<noteq> start_state"
    by code_simp
  ultimately show ?thesis
    using process_decision_unknown_approach by simp
qed

text \<open>
  C1, amended: the approach identifier is checked by the endpoint \<^verbatim>\<open>submit_decision\<close>
  (through \<^verbatim>\<open>_validate_decision\<close>), before \<^verbatim>\<open>process_decision\<close> is called. For every fetched
  scenario and state and every decision whose approach identifier is not among the scenario's
  approach identifiers, \<^verbatim>\<open>submit_decision\<close> fails with HTTP 400 "Invalid decision for scenario"
  and produces no new state; \<^verbatim>\<open>process_decision\<close> itself gives the same result whatever the
  identifier and the approach list are.
\<close>

theorem C1_unknown_approach_rejected_by_endpoint:
  "(approach_id decision \<notin> set (map approach_ident (possible_approaches sc)) \<longrightarrow>
      submit_decision now (Some sc) (Some gs) decision =
        Inl (HTTPException 400 (Text ''Invalid decision for scenario'')))
   \<and> process_decision now gs (sc\<lparr>possible_approaches := aps\<rparr>) (decision\<lparr>approach_id := a\<rparr>) =
       process_decision now gs sc decision"
  by (simp add: submit_decision_def validate_decision_def process_decision_approach)

theorem C1_unknown_approach_rejected_by_endpoint_witness:
  "approach_id decision_unknown_approach
     \<notin> set (map approach_ident (possible_approaches scenario_half))
   \<and> submit_decision 0 (Some scenario_half) (Some start_state) decision_unknown_approach =
       Inl (HTTPException 400 (Text ''Invalid decision for scenario''))"
proof -
  have h: "approach_id decision_unknown_approach
             \<notin> set (map approach_ident (possible_approaches scenario_half))"
    by code_simp
  from C1_unknown_approach_rejected_by_endpoint
         [where decision = decision_unknown_approach and sc = scenario_half and now = 0
            and gs = start_state] h
  show ?thesis by blast
qed

section \<open>C2: the scenario of the specification\<close>

text \<open>
  C2 says that on the starting state the decision with the impacts
  \<^verbatim>\<open>{employees: +20, financial: -10000}\<close> at difficulty 0.5 succeeds. In the code the loop of
  \<^verbatim>\<open>_calculate_decision_impacts\<close> sends every key of the decision's impacts, \<^verbatim>\<open>financial\<close>
  included, to \<^verbatim>\<open>_calculate_impact_modifier\<close>, which indexes the satisfaction dict with it;
  the dict has the five stakeholders only, so \<^verbatim>\<open>process_decision\<close> raises KeyError and
  returns no state. (\<^verbatim>\<open>_calculate_financial_impact\<close> reads the same key with
  \<^verbatim>\<open>decision.impacts.get('financial', 0)\<close>: the key is meant to be there.)
\<close>

theorem C2_process_decision_raises_key_error:
  "process_decision now start_state scenario_half decision_employees_financial =
     Inl (KeyError ''financial'')"
  by code_simp

section \<open>C3: the market-share update on a state without funds\<close>




section \<open>C4: satisfaction and market share stay in [0, 100]\<close>

text \<open>
  C4: for every input state whose satisfaction values and market share lie in [0, 100] and
  every decision that \<^verbatim>\<open>process_decision\<close> accepts, every satisfaction value of the output
  state lies in [0, 100], and so does its market share.
\<close>

theorem C4_satisfaction_and_market_share_bounded:
  assumes "in_range (stakeholder_satisfaction gs)"
    and "0 \<le> market_share gs \<and> market_share gs \<le> 100"
    and "process_decision now gs sc d = Inr (gs', imp)"
  shows "in_range (stakeholder_satisfaction gs')
         \<and> 0 \<le> market_share gs' \<and> market_share gs' \<le> 100"
proof -
  from assms(3) obtain s where a: "apply_impacts gs imp = Inr s"
    and f: "stakeholder_satisfaction gs' = stakeholder_satisfaction s"
           "market_share gs' = market_share s"
    by (rule process_decision_Inr)
  from apply_impacts_range [OF a assms(1)] f show ?thesis by simp
qed

theorem C4_satisfaction_and_market_share_bounded_witness:
  "in_range (stakeholder_satisfaction start_state)
   \<and> 0 \<le> market_share start_state \<and> market_share start_state \<le> 100
   \<and> process_decision 0 start_state scenario_half decision_employees =
       Inr (state_after_employees,
            [(''employees'', 12), (''financial'', 0), (''reputation'', 27 / 5)])
   \<and> in_range (stakeholder_satisfaction state_after_employees)
   \<and> 0 \<le> market_share state_after_employees
   \<and> market_share state_after_employees \<le> 100"
proof -
  have h1: "in_range (stakeholder_satisfaction start_state)"
    and h2: "0 \<le> market_share start_state \<and> market_share start_state \<le> 100"
    using start_state_in_range by simp_all
  from C4_satisfaction_and_market_share_bounded [OF h1 h2 process_decision_employees]
  show ?thesis using h1 h2 process_decision_employees by simp
qed

section \<open>C5: experience never decreases, one level per decision at most\<close>

text \<open>
  C5: across every successful \<^verbatim>\<open>process_decision\<close> with a non-negative scenario difficulty,
  the experience points of the output state are at least those of the input state, and the
  level of the output state is the input level or the input level plus one, whatever the
  experience gained.
\<close>

theorem C5_experience_monotone_single_level_up:
  assumes "0 \<le> scenario.difficulty_level sc"
    and "process_decision now gs sc d = Inr (gs', imp)"
  shows "experience_points gs \<le> experience_points gs'
         \<and> (current_level gs' = current_level gs \<or> current_level gs' = current_level gs + 1)"
proof -
  from assms(2) obtain s where a: "apply_impacts gs imp = Inr s"
    and x: "experience_points gs' =
              experience_points s + calculate_experience_points d imp (scenario.difficulty_level sc)"
    and l: "current_level gs' = current_level s \<or> current_level gs' = current_level s + 1"
    by (rule process_decision_Inr)
  from apply_impacts_fields [OF a] x l xp_nonneg [OF assms(1), of d imp]
  show ?thesis by simp
qed

theorem C5_experience_monotone_single_level_up_witness:
  "0 \<le> scenario.difficulty_level scenario_half
   \<and> process_decision 0 start_state scenario_half decision_big_gain =
       Inr (state_after_big_gain,
            [(''employees'', 12000), (''financial'', 0), (''reputation'', 5400)])
   \<and> experience_points start_state = 0 \<and> experience_points state_after_big_gain = 8890
   \<and> calculate_xp_needed 2 \<le> experience_points state_after_big_gain
   \<and> current_level start_state = 1 \<and> current_level state_after_big_gain = 2"
proof -
  have h: "0 \<le> scenario.difficulty_level scenario_half"
    by code_simp
  have v: "experience_points start_state = 0 \<and> experience_points state_after_big_gain = 8890
           \<and> calculate_xp_needed 2 \<le> experience_points state_after_big_gain
           \<and> current_level start_state = 1 \<and> current_level state_after_big_gain = 2"
    by code_simp
  from C5_experience_monotone_single_level_up [OF h process_decision_big_gain]
  show ?thesis using h v process_decision_big_gain by simp
qed


section \<open>Verification: the store and the state by value\<close>

lemma update_satisfaction_h_Inr:
  "update_satisfaction_h imp ks r h = (Inr u, h') \<Longrightarrow>
   \<exists>sat'. update_satisfaction imp ks (satisfaction_dicts h r) = Inr sat'
          \<and> h' = h\<lparr>satisfaction_dicts := (satisfaction_dicts h)(r := sat')\<rparr>"
proof (induction ks arbitrary: h)
  case Nil
  have "h\<lparr>satisfaction_dicts := (satisfaction_dicts h)(r := satisfaction_dicts h r)\<rparr> = h"
    by simp
  with Nil show ?case by (intro exI [of _ "satisfaction_dicts h r"]) simp
next
  case (Cons k ks)
  show ?case
  proof (cases "map_of imp k")
    case None
    with Cons show ?thesis by simp
  next
    case (Some change)
    with Cons.prems obtain current where
      c: "getitem (satisfaction_dicts h r) k = Inr current" and
      s: "update_satisfaction_h imp ks r
            (h\<lparr>satisfaction_dicts := (satisfaction_dicts h)
                 (r := AList.update k (clamp100 (current + change)) (satisfaction_dicts h r))\<rparr>)
          = (Inr u, h')"
      by (auto split: sum.splits)
    from Cons.IH [OF s] have
      "\<exists>sat'. update_satisfaction imp ks
               (AList.update k (clamp100 (current + change)) (satisfaction_dicts h r)) = Inr sat'
             \<and> h' = h\<lparr>satisfaction_dicts := (satisfaction_dicts h)(r := sat')\<rparr>"
      by (simp add: fun_upd_same del: fun_upd_apply)
    then obtain sat' where
      a: "update_satisfaction imp ks
            (AList.update k (clamp100 (current + change)) (satisfaction_dicts h r)) = Inr sat'"
      and b: "h' = h\<lparr>satisfaction_dicts := (satisfaction_dicts h)(r := sat')\<rparr>"
      by blast
    from a Some c have "update_satisfaction imp (k # ks) (satisfaction_dicts h r) = Inr sat'"
      by simp
    with b show ?thesis by blast
  qed
qed

lemma update_satisfaction_h_frame:
  "update_satisfaction_h imp ks r h = (res, h') \<Longrightarrow>
   (\<forall>r'. r' \<noteq> r \<longrightarrow> satisfaction_dicts h' r' = satisfaction_dicts h r')
   \<and> event_lists h' = event_lists h \<and> metadata_dicts h' = metadata_dicts h"
proof (induction ks arbitrary: h)
  case Nil
  then show ?case by simp
next
  case (Cons k ks)
  show ?case
  proof (cases "map_of imp k")
    case None
    with Cons show ?thesis by simp
  next
    case (Some change)
    show ?thesis
    proof (cases "getitem (satisfaction_dicts h r) k")
      case (Inl e)
      with Some Cons.prems show ?thesis by simp
    next
      case (Inr current)
      with Some Cons.prems have
        s: "update_satisfaction_h imp ks r
            (h\<lparr>satisfaction_dicts := (satisfaction_dicts h)
                 (r := AList.update k (clamp100 (current + change)) (satisfaction_dicts h r))\<rparr>)
          = (res, h')"
        by simp
      from Cons.IH [OF s] show ?thesis by simp
    qed
  qed
qed

lemma deref_scalars:
  "deref h (obj\<lparr>financial_resources := f\<rparr>) = (deref h obj)\<lparr>financial_resources := f\<rparr>"
  "deref h (obj\<lparr>reputation := r\<rparr>) = (deref h obj)\<lparr>reputation := r\<rparr>"
  "deref h (obj\<lparr>market_share := m\<rparr>) = (deref h obj)\<lparr>market_share := m\<rparr>"
  "deref h (obj\<lparr>sustainability_rating := s\<rparr>) = (deref h obj)\<lparr>sustainability_rating := s\<rparr>"
  "deref h (obj\<lparr>experience_points := x\<rparr>) = (deref h obj)\<lparr>experience_points := x\<rparr>"
  "deref h (obj\<lparr>current_level := l\<rparr>) = (deref h obj)\<lparr>current_level := l\<rparr>"
  by (simp_all add: deref_def)

lemma deref_satisfaction_write:
  "deref (h\<lparr>satisfaction_dicts := (satisfaction_dicts h)(stakeholder_satisfaction obj := s)\<rparr>) obj
     = (deref h obj)\<lparr>stakeholder_satisfaction := s\<rparr>"
  by (simp add: deref_def)

lemma deref_state_copy:
  "state_copy depth h obj = (c, h0) \<Longrightarrow> deref h0 c = deref h obj"
  by (cases depth) (auto simp: deref_def Let_def)

text \<open>A successful \<^verbatim>\<open>_apply_impacts\<close> on the store returns the object whose view is the
  state that \<open>apply_impacts\<close> computes by value.\<close>

lemma apply_impacts_h_Inr:
  assumes "apply_impacts_h depth h obj imp = (Inr u, h1)"
  shows "apply_impacts (deref h obj) imp = Inr (deref h1 u)"
proof -
  obtain c h0 where c: "state_copy depth h obj = (c, h0)"
    by (cases "state_copy depth h obj")
  note d0 = deref_state_copy [OF c]
  define u2 where
    "u2 = c\<lparr>financial_resources := financial_resources c + get0 imp ''financial'',
             reputation := reputation c + get0 imp ''reputation''\<rparr>"
  have r2: "stakeholder_satisfaction u2 = stakeholder_satisfaction c"
    by (simp add: u2_def)
  obtain r h1' where
    l: "update_satisfaction_h imp STAKEHOLDER_TYPES (stakeholder_satisfaction u2) h0 = (r, h1')"
    by (cases "update_satisfaction_h imp STAKEHOLDER_TYPES (stakeholder_satisfaction u2) h0")
  from assms c l obtain x share rating where r: "r = Inr x" and h1: "h1' = h1"
    and ms: "calculate_new_market_share (deref h1 u2) imp = Inr share"
    and sr: "calculate_sustainability_rating (deref h1 (u2\<lparr>market_share := share\<rparr>)) = Inr rating"
    and u: "u = u2\<lparr>market_share := share, sustainability_rating := rating\<rparr>"
    by (auto simp: apply_impacts_h_def Let_def u2_def split: sum.splits)
  from update_satisfaction_h_Inr [OF l [unfolded r]] h1 obtain sat' where
    s: "update_satisfaction imp STAKEHOLDER_TYPES
          (satisfaction_dicts h0 (stakeholder_satisfaction u2)) = Inr sat'"
    and h1eq: "h1 = h0\<lparr>satisfaction_dicts :=
                       (satisfaction_dicts h0)(stakeholder_satisfaction u2 := sat')\<rparr>"
    by auto
  have v0: "deref h0 u2 =
              (deref h obj)
                \<lparr>financial_resources := financial_resources (deref h obj) + get0 imp ''financial'',
                 reputation := reputation (deref h obj) + get0 imp ''reputation''\<rparr>"
    unfolding u2_def deref_scalars d0 [symmetric] by (simp add: deref_def)
  have v1: "deref h1 u2 = (deref h0 u2)\<lparr>stakeholder_satisfaction := sat'\<rparr>"
    unfolding h1eq by (rule deref_satisfaction_write)
  have s': "update_satisfaction imp STAKEHOLDER_TYPES (stakeholder_satisfaction (deref h obj))
              = Inr sat'"
    using s d0 r2 by (simp add: deref_def)
  have "apply_impacts (deref h obj) imp =
        Inr ((deref h1 u2)\<lparr>market_share := share, sustainability_rating := rating\<rparr>)"
    using s' ms sr unfolding deref_scalars v1 v0
    by (simp add: apply_impacts_def Let_def)
  then show ?thesis unfolding u deref_scalars .
qed

lemma deref_check_level_up: "deref h (check_level_up obj) = check_level_up (deref h obj)"
  by (simp add: check_level_up_def deref_def)

lemma refs_check_level_up:
  "stakeholder_satisfaction (check_level_up obj) = stakeholder_satisfaction obj"
  "ongoing_events (check_level_up obj) = ongoing_events obj"
  "metadata (check_level_up obj) = metadata obj"
  by (simp_all add: check_level_up_def)

lemma deref_handle_events_h:
  "deref (handle_events_h h obj events) obj = handle_events (deref h obj) events"
  by (simp add: handle_events_h_def handle_events_def deref_def)

lemma deref_memories_h:
  "metadata obj' = metadata obj \<Longrightarrow>
   deref (update_stakeholder_memories_h now h obj d imp) obj' =
     update_stakeholder_memories now (deref h obj') d imp"
  by (simp add: update_stakeholder_memories_h_def update_stakeholder_memories_def deref_def)

text \<open>The same for \<^verbatim>\<open>process_decision\<close>, whatever the depth of the copy: the store model
  and the model by value return the same state.\<close>

lemma process_decision_h_Inr:
  assumes "process_decision_h depth now h obj sc d = (Inr (obj', imp), h')"
  shows "process_decision now (deref h obj) sc d = Inr (deref h' obj', imp)"
proof -
  from assms obtain u h1 where
    ci: "calculate_decision_impacts d sc (deref h obj) = Inr imp" and
    ai: "apply_impacts_h depth h obj imp = (Inr u, h1)" and
    o: "obj' = check_level_up (u\<lparr>experience_points := experience_points u
              + calculate_experience_points d imp (scenario.difficulty_level sc)\<rparr>)" and
    h: "h' = update_stakeholder_memories_h now
              (if check_triggered_events (deref h1 u) imp \<noteq> []
               then handle_events_h h1 u (check_triggered_events (deref h1 u) imp) else h1)
              obj' d imp"
    by (auto simp: process_decision_h_def Let_def split: sum.splits prod.splits)
  note av = apply_impacts_h_Inr [OF ai]
  define h2 where
    "h2 = (if check_triggered_events (deref h1 u) imp \<noteq> []
           then handle_events_h h1 u (check_triggered_events (deref h1 u) imp) else h1)"
  have d2: "deref h2 u =
              (if check_triggered_events (deref h1 u) imp \<noteq> []
               then handle_events (deref h1 u) (check_triggered_events (deref h1 u) imp)
               else deref h1 u)"
    by (simp add: h2_def deref_handle_events_h)
  have "deref h' obj' = update_stakeholder_memories now (deref h2 obj') d imp"
    unfolding h h2_def [symmetric] by (rule deref_memories_h) simp
  also have "deref h2 obj' =
               check_level_up ((deref h2 u)\<lparr>experience_points := experience_points u
                 + calculate_experience_points d imp (scenario.difficulty_level sc)\<rparr>)"
    unfolding o deref_check_level_up deref_scalars ..
  finally have r: "deref h' obj' = update_stakeholder_memories now
       (check_level_up ((deref h2 u)\<lparr>experience_points := experience_points (deref h2 u)
              + calculate_experience_points d imp (scenario.difficulty_level sc)\<rparr>)) d imp"
    by (simp add: deref_def)
  show ?thesis
    unfolding r d2 using ci av
    by (simp add: process_decision_def Let_def)
qed

text \<open>With a deep copy every write of \<^verbatim>\<open>process_decision\<close> goes to the fresh containers:
  the holder of the prior object sees no change, also when the call raises.\<close>

lemma apply_impacts_h_deep_frame:
  assumes "apply_impacts_h Deep h obj imp = (res, h1)"
  shows "same_below (next_ref h) h h1"
    and "\<And>u. res = Inr u \<Longrightarrow> stakeholder_satisfaction u = next_ref h
           \<and> ongoing_events u = next_ref h \<and> metadata u = next_ref h"
proof -
  define n where "n = next_ref h"
  define h0 where "h0 = snd (state_copy Deep h obj)"
  have h0: "same_below n h h0"
    by (simp add: h0_def n_def same_below_def Let_def)
  obtain r h1' where l: "update_satisfaction_h imp STAKEHOLDER_TYPES n h0 = (r, h1')"
    by (cases "update_satisfaction_h imp STAKEHOLDER_TYPES n h0")
  from assms l have h1: "h1 = h1'"
    by (auto simp: apply_impacts_h_def Let_def h0_def n_def split: sum.splits prod.splits)
  from update_satisfaction_h_frame [OF l] h0 show "same_below (next_ref h) h h1"
    unfolding h1 n_def [symmetric] by (simp add: same_below_def)
  fix u assume "res = Inr u"
  with assms show "stakeholder_satisfaction u = next_ref h
           \<and> ongoing_events u = next_ref h \<and> metadata u = next_ref h"
    by (auto simp: apply_impacts_h_def Let_def split: sum.splits prod.splits)
qed

lemma deref_same_below:
  "same_below n h h' \<Longrightarrow> stakeholder_satisfaction obj < n \<Longrightarrow> ongoing_events obj < n
   \<Longrightarrow> metadata obj < n \<Longrightarrow> deref h' obj = deref h obj"
  by (simp add: same_below_def deref_def)

lemma process_decision_h_deep_frame:
  assumes "process_decision_h Deep now h obj sc d = (res, h')"
    and "stakeholder_satisfaction obj < next_ref h" "ongoing_events obj < next_ref h"
        "metadata obj < next_ref h"
  shows "deref h' obj = deref h obj"
proof -
  have "same_below (next_ref h) h h'"
  proof (cases "calculate_decision_impacts d sc (deref h obj)")
    case (Inl e)
    with assms(1) show ?thesis by (simp add: process_decision_h_def same_below_def)
  next
    case (Inr imp)
    obtain r h1 where a: "apply_impacts_h Deep h obj imp = (r, h1)"
      by (cases "apply_impacts_h Deep h obj imp")
    note f = apply_impacts_h_deep_frame [OF a]
    show ?thesis
    proof (cases r)
      case (Inl e)
      with assms(1) Inr a f(1) show ?thesis by (simp add: process_decision_h_def)
    next
      case (Inr u)
      from f(2) [OF Inr] have refs: "stakeholder_satisfaction u = next_ref h"
        "ongoing_events u = next_ref h" "metadata u = next_ref h" by simp_all
      from assms(1) \<open>calculate_decision_impacts d sc (deref h obj) = Inr imp\<close> a Inr
      show ?thesis
        using f(1) refs
        by (auto simp: process_decision_h_def Let_def same_below_def handle_events_h_def
            update_stakeholder_memories_h_def refs_check_level_up)
    qed
  qed
  then show ?thesis using assms(2-4) by (rule deref_same_below)
qed

section \<open>Verification: shared lemmas on the pattern analyzer\<close>

lemma fl_sum_Fin: "fl_sum (map (\<lambda>x. Fin (f x)) xs) = Fin (\<Sum>x \<leftarrow> xs. f x)"
  by (induction xs) (simp_all add: fl_add_def)

lemma np_mean_Fin:
  "xs \<noteq> [] \<Longrightarrow>
   np_mean (map (\<lambda>x. Fin (f x)) xs) = Fin ((\<Sum>x \<leftarrow> xs. f x) / real (length xs))"
  by (simp add: np_mean_def fl_sum_Fin fl_div_def)

lemma bias_step_Fin:
  "stakeholders_affected d \<noteq> [] \<Longrightarrow>
   bias_step (Fin a, Fin b) d =
     (Fin (a + short_term_component d), Fin (b + financial_component d))"
  by (simp add: bias_step_def Let_def np_mean_Fin short_term_component_def
      financial_component_def fl_add_def fl_sub_def fl_div_def)

lemma foldl_bias_step:
  "\<forall>d \<in> set ds. stakeholders_affected d \<noteq> [] \<Longrightarrow>
   foldl bias_step (Fin a, Fin b) ds =
     (Fin (a + (\<Sum>d \<leftarrow> ds. short_term_component d)),
      Fin (b + (\<Sum>d \<leftarrow> ds. financial_component d)))"
proof (induction ds arbitrary: a b)
  case Nil
  then show ?case by simp
next
  case (Cons d ds)
  then show ?case by (simp add: bias_step_Fin add.assoc)
qed

text \<open>One field that raises makes the whole \<^verbatim>\<open>LearningPattern(...)\<close> expression raise.\<close>

lemma compute_pattern_fails:
  assumes "(\<exists>e. calculate_confidence ds = Inl e) \<or> (\<exists>e. assess_skill_levels ss ds = Inl e)
     \<or> (\<exists>e. calculate_learning_rate pf ds = Inl e) \<or> (\<exists>e. analyze_decision_speed ds = Inl e)
     \<or> (\<exists>e. calculate_consistency ds = Inl e)"
  shows "\<exists>e. compute_pattern ss pf ds = Inl e"
proof -
  have "isl (compute_pattern ss pf ds)"
    using assms
    by (auto simp: compute_pattern_def Let_def then_do_def split: sum.splits)
  then show ?thesis by (cases "compute_pattern ss pf ds") auto
qed

text \<open>Below the threshold the result is the cold-start pattern, whatever the decisions.\<close>

lemma analyze_patterns_cold_start:
  "int (length ds) < m \<Longrightarrow> analyze_patterns ss pf m ds lvl = Inr generate_initial_pattern"
  by (simp add: analyze_patterns_def)

text \<open>With the class as it stands (no \<^verbatim>\<open>_calculate_skill_score\<close>) every call returns the
  cold-start pattern: a history that is not empty raises AttributeError in
  \<^verbatim>\<open>_assess_skill_levels\<close> at the latest, and the empty history divides by zero in
  \<^verbatim>\<open>_calculate_confidence\<close>.\<close>

lemma collect_skill_scores_missing:
  "ds \<noteq> [] \<Longrightarrow>
   collect_skill_scores missing_skill_score ds acc = Inl (AttributeError ''_calculate_skill_score'')"
  by (cases ds) (simp_all add: skill_categories_def missing_skill_score_def then_do_def)

lemma calculate_confidence_empty: "calculate_confidence [] = Inl ZeroDivisionError"
  by (simp add: calculate_confidence_def then_do_def)

lemma analyze_patterns_missing_skill_score:
  "analyze_patterns missing_skill_score pf m ds lvl = Inr generate_initial_pattern"
proof (cases "ds = []")
  case True
  then have "\<exists>e. compute_pattern missing_skill_score pf ds = Inl e"
    using calculate_confidence_empty by (intro compute_pattern_fails) simp
  then show ?thesis by (auto simp: analyze_patterns_def)
next
  case False
  then have "assess_skill_levels missing_skill_score ds
               = Inl (AttributeError ''_calculate_skill_score'')"
    by (simp add: assess_skill_levels_def collect_skill_scores_missing then_do_def)
  then have "\<exists>e. compute_pattern missing_skill_score pf ds = Inl e"
    by (intro compute_pattern_fails) simp
  then show ?thesis by (auto simp: analyze_patterns_def)
qed

section \<open>C6: the cold-start pattern\<close>

text \<open>
  C6 says that below the threshold \<^verbatim>\<open>analyze_patterns\<close> returns the cold-start profile with
  a preference of 0.5 for every canonical stakeholder: employees, customers, investors,
  community, environment. The code returns its fixed pattern (lemma
  \<open>analyze_patterns_cold_start\<close>), but the dict of preferences in
  \<^verbatim>\<open>_generate_initial_pattern\<close> lists employees, community, investors and environment only:
  for the empty history and the default threshold 5 the returned preferences have no entry
  for customers, which is one of the stakeholder types of the settings.
\<close>

theorem C6_initial_pattern_lacks_customers:
  "analyze_patterns ss pf 5 [] lvl = Inr generate_initial_pattern
   \<and> map_of (stakeholder_preferences generate_initial_pattern) ''customers'' = None
   \<and> ''customers'' \<in> set STAKEHOLDER_TYPES"
  by (simp add: analyze_patterns_def generate_initial_pattern_def STAKEHOLDER_TYPES_def)

section \<open>C7: analyze_patterns never raises\<close>

text \<open>
  C7: for every decision history \<^verbatim>\<open>analyze_patterns\<close> returns a pattern and raises nothing to
  its caller, and whenever the computation of a profile field raises (for example the
  division by a zero \<^verbatim>\<open>time_spent\<close> in \<^verbatim>\<open>_analyze_decision_speed\<close>), the result is the
  cold-start pattern. The skill score and the line fit are arbitrary.
\<close>

theorem C7_analyze_patterns_never_raises:
  "(\<exists>p. analyze_patterns ss pf m ds lvl = Inr p)
   \<and> ((\<exists>e. calculate_confidence ds = Inl e \<or> assess_skill_levels ss ds = Inl e
           \<or> calculate_learning_rate pf ds = Inl e \<or> analyze_decision_speed ds = Inl e
           \<or> calculate_consistency ds = Inl e)
        \<longrightarrow> analyze_patterns ss pf m ds lvl = Inr generate_initial_pattern)"
proof (intro conjI impI)
  show "\<exists>p. analyze_patterns ss pf m ds lvl = Inr p"
    by (simp add: analyze_patterns_def split: sum.splits)
next
  assume "\<exists>e. calculate_confidence ds = Inl e \<or> assess_skill_levels ss ds = Inl e
           \<or> calculate_learning_rate pf ds = Inl e \<or> analyze_decision_speed ds = Inl e
           \<or> calculate_consistency ds = Inl e"
  then have "\<exists>e. compute_pattern ss pf ds = Inl e"
    by (intro compute_pattern_fails) blast
  then show "analyze_patterns ss pf m ds lvl = Inr generate_initial_pattern"
    by (auto simp: analyze_patterns_def)
qed

theorem C7_analyze_patterns_never_raises_witness:
  "5 \<le> int (length history_zero_time)
   \<and> analyze_decision_speed history_zero_time = Inl ZeroDivisionError
   \<and> analyze_patterns constant_skill_score least_squares_slope 5 history_zero_time 1
       = Inr generate_initial_pattern"
proof -
  have n: "5 \<le> int (length history_zero_time)"
    by code_simp
  have h: "analyze_decision_speed history_zero_time = Inl ZeroDivisionError"
    by code_simp
  from C7_analyze_patterns_never_raises
         [where ds = history_zero_time and ss = constant_skill_score
            and pf = least_squares_slope and m = 5 and lvl = 1] h
  have "analyze_patterns constant_skill_score least_squares_slope 5 history_zero_time 1
          = Inr generate_initial_pattern"
    by blast
  with n h show ?thesis by simp
qed

section \<open>C8: the bias score\<close>

text \<open>What the loop and the final mean of \<^verbatim>\<open>_calculate_bias_score\<close> compute when every
  decision affects at least one stakeholder: the two components are accumulated over the
  decisions and never divided by their number, and the mean runs over the three entries of
  the dict \<^verbatim>\<open>biases\<close>, of which \<^verbatim>\<open>'stakeholder'\<close> is never written.\<close>

lemma calculate_bias_score_sums:
  assumes "\<forall>d \<in> set ds. stakeholders_affected d \<noteq> []"
  shows "calculate_bias_score ds =
           Fin (((\<Sum>d \<leftarrow> ds. short_term_component d)
                 + (\<Sum>d \<leftarrow> ds. financial_component d) + 0) / 3)"
  using foldl_bias_step [OF assms, of 0 0]
  by (simp add: calculate_bias_score_def Let_def np_mean_def fl_add_def fl_div_def)

text \<open>
  C8 says that the bias score is the average over the decisions of the two signed
  components, the two averages averaged together (\<open>bias_score_spec\<close>). The code documents
  the score as a value from -1 to 1 and normalizes the accumulated components, but it never
  divides them by the number of decisions, and it averages them with an entry that stays 0.
  For five decisions with an immediate impact of 100 each on one stakeholder the code
  returns (5 + 0 + 0) / 3 = 5/3, above the documented bound 1, where the average of the
  claim is (1 + 0) / 2 = 1/2.
\<close>

theorem C8_bias_score_sums_instead_of_averages:
  "5 \<le> int (length history_strong)
   \<and> calculate_bias_score history_strong = Fin (5 / 3)
   \<and> bias_score_spec history_strong = 1 / 2
   \<and> calculate_bias_score history_strong \<noteq> Fin (bias_score_spec history_strong)
   \<and> fl_less (Fin 1) (calculate_bias_score history_strong)"
  by code_simp

section \<open>C9: the caller's prior state\<close>

text \<open>
  C9 says that a successful \<^verbatim>\<open>process_decision\<close> leaves the caller's prior state unchanged.
  \<^verbatim>\<open>_apply_impacts\<close> works on \<^verbatim>\<open>game_state.copy()\<close>, a shallow copy, and writes into the
  satisfaction dict of the copy, which is the dict of the prior state; \<^verbatim>\<open>_handle_events\<close>
  and \<^verbatim>\<open>_update_stakeholder_memories\<close> do the same with the list of ongoing events and the
  metadata dict. On the starting state, at difficulty 0.5, the decision
  \<^verbatim>\<open>{employees: -50}\<close> succeeds, and afterwards the holder of the prior object sees the
  employees at 20 instead of 50, a stakeholder crisis among its ongoing events and a memory
  in its metadata. (With a deep copy the prior state is untouched: lemma
  \<open>process_decision_h_deep_frame\<close>.)
\<close>

theorem C9_prior_state_mutated_in_place:
  "deref start_heap start_obj = start_state
   \<and> fst (process_decision_h Shallow 0 start_heap start_obj scenario_half decision_layoffs) =
       Inr (obj_after_layoffs,
            [(''employees'', - 30), (''financial'', 0), (''reputation'', - (27 / 2))])
   \<and> deref (snd (process_decision_h Shallow 0 start_heap start_obj scenario_half
                   decision_layoffs)) start_obj = prior_state_after_layoffs
   \<and> prior_state_after_layoffs \<noteq> start_state"
  by code_simp

section \<open>C10: the level argument\<close>

text \<open>
  C10: for every decision history and any two levels, \<^verbatim>\<open>analyze_patterns\<close> returns the same
  result: the argument \<^verbatim>\<open>current_level\<close> has no influence on it.
\<close>

theorem C10_current_level_has_no_influence:
  "analyze_patterns ss pf m ds l1 = analyze_patterns ss pf m ds l2"
  by (simp add: analyze_patterns_def)

end
